theory Spec2Isabelle
  imports Complex_Main
begin

section \<open>JavaScript values\<close>

text \<open>
  The page is TypeScript, whose types are erased at run time: \<^verbatim>\<open>parseAgentResponse\<close>
  probes its argument with \<^verbatim>\<open>typeof\<close>, \<^verbatim>\<open>Array.isArray\<close> and truthiness tests. The
  values it can meet are the ones JSON can carry, plus \<^verbatim>\<open>undefined\<close> for a missing
  property. An object is an association list in insertion order; a property read takes
  the first binding of the key. Numbers are only ever tested for truthiness here.

  The interface \<^verbatim>\<open>AIAgentResponse\<close> and the function \<^verbatim>\<open>callAIAgent\<close> are imported from
  \<^verbatim>\<open>@/lib/aiAgent\<close>, which is not part of the page. The argument of
  \<^verbatim>\<open>parseAgentResponse\<close> is therefore any JavaScript value, which covers every shape the
  interface can declare, and the call of \<^verbatim>\<open>callAIAgent\<close> is an input of the model: it
  resolves with some value or rejects.
\<close>

datatype jsval =
    JUndefined
  | JNull
  | JBool bool
  | JNum rat
  | JStr string
  | JArr "jsval list"
  | JObj "(string \<times> jsval) list"

datatype js_error = TypeError | SyntaxError

text \<open>Truthiness, as \<^verbatim>\<open>!v\<close>, \<^verbatim>\<open>a && b\<close>, \<^verbatim>\<open>a || b\<close> and \<^verbatim>\<open>if (v)\<close> see it.\<close>

fun truthy :: "jsval \<Rightarrow> bool" where
  "truthy JUndefined = False"
| "truthy JNull = False"
| "truthy (JBool b) = b"
| "truthy (JNum n) = (n \<noteq> 0)"
| "truthy (JStr s) = (s \<noteq> [])"
| "truthy (JArr xs) = True"
| "truthy (JObj kvs) = True"

fun typeof :: "jsval \<Rightarrow> string" where
  "typeof JUndefined = ''undefined''"
| "typeof JNull = ''object''"
| "typeof (JBool b) = ''boolean''"
| "typeof (JNum n) = ''number''"
| "typeof (JStr s) = ''string''"
| "typeof (JArr xs) = ''object''"
| "typeof (JObj kvs) = ''object''"

fun isArray :: "jsval \<Rightarrow> bool" where
  "isArray (JArr xs) = True"
| "isArray v = False"

text \<open>
  The value of \<^verbatim>\<open>v.k\<close> for a receiver that is neither \<^verbatim>\<open>null\<close> nor \<^verbatim>\<open>undefined\<close>.
  The keys this program reads (\<^verbatim>\<open>success\<close>, \<^verbatim>\<open>response\<close>, \<^verbatim>\<open>error\<close>, \<^verbatim>\<open>result\<close>,
  \<^verbatim>\<open>message\<close>, \<^verbatim>\<open>raw_response\<close>, \<^verbatim>\<open>text\<close>, \<^verbatim>\<open>answer\<close>, \<^verbatim>\<open>content\<close>, \<^verbatim>\<open>products\<close>,
  \<^verbatim>\<open>comparison\<close>, \<^verbatim>\<open>attributes\<close>, \<^verbatim>\<open>name\<close>) are no built-in property of a string, a
  number, a boolean or an array, so such a receiver yields \<^verbatim>\<open>undefined\<close>.
\<close>

fun js_prop :: "jsval \<Rightarrow> string \<Rightarrow> jsval" where
  "js_prop (JObj kvs) k = (case map_of kvs k of Some v \<Rightarrow> v | None \<Rightarrow> JUndefined)"
| "js_prop v k = JUndefined"

definition nullish :: "jsval \<Rightarrow> bool" where
  "nullish v = (v = JUndefined \<or> v = JNull)"

text \<open>\<^verbatim>\<open>v.k\<close>: reading a property of \<^verbatim>\<open>null\<close> or \<^verbatim>\<open>undefined\<close> throws a TypeError.\<close>

definition get :: "jsval \<Rightarrow> string \<Rightarrow> js_error + jsval" where
  "get v k = (if nullish v then Inl TypeError else Inr (js_prop v k))"

text \<open>\<^verbatim>\<open>v?.k\<close>: optional chaining yields \<^verbatim>\<open>undefined\<close> instead of throwing.\<close>

definition opt_get :: "jsval \<Rightarrow> string \<Rightarrow> jsval" where
  "opt_get v k = (if nullish v then JUndefined else js_prop v k)"

text \<open>\<^verbatim>\<open>a || b\<close> on values.\<close>

definition js_or :: "jsval \<Rightarrow> jsval \<Rightarrow> jsval" where
  "js_or a b = (if truthy a then a else b)"

text \<open>Sequencing of expressions that may throw.\<close>

definition bindE :: "js_error + 'a \<Rightarrow> ('a \<Rightarrow> js_error + 'b) \<Rightarrow> js_error + 'b" where
  "bindE m f = (case m of Inl e \<Rightarrow> Inl e | Inr x \<Rightarrow> f x)"

text \<open>
  \<^verbatim>\<open>JSON.parse\<close> belongs to the JavaScript runtime, not to the page. It is a parameter
  of the model: applied to a value (which it first converts to a string) it either
  returns the parsed value or throws a SyntaxError, which is the result \<open>None\<close>.
\<close>

type_synonym json_parser = "jsval \<Rightarrow> jsval option"

section \<open>The response normaliser: \<^verbatim>\<open>parseAgentResponse\<close>\<close>

text \<open>
  The three local variables \<^verbatim>\<open>text\<close>, \<^verbatim>\<open>products\<close>, \<^verbatim>\<open>comparison\<close> of the function,
  which are also the object it returns.
\<close>

record parse_result =
  res_text :: jsval
  res_products :: "jsval list"
  res_comparison :: jsval

text \<open>
  A block of statements either completes with the variables updated, or throws; the
  variables as they stand at the throw are kept, since a \<^verbatim>\<open>catch\<close> block carries on
  from them.
\<close>

type_synonym outcome = "(js_error \<times> parse_result) + parse_result"

text \<open>Evaluate an expression in state \<open>st\<close> and continue with its value.\<close>

definition eval_in :: "parse_result \<Rightarrow> js_error + 'a \<Rightarrow> ('a \<Rightarrow> outcome) \<Rightarrow> outcome" where
  "eval_in st e k = (case e of Inl err \<Rightarrow> Inl (err, st) | Inr v \<Rightarrow> k v)"

text \<open>Statement sequencing: a throw skips the rest of the block.\<close>

definition then_do :: "outcome \<Rightarrow> (parse_result \<Rightarrow> outcome) \<Rightarrow> outcome" where
  "then_do r k = (case r of Inl x \<Rightarrow> Inl x | Inr st \<Rightarrow> k st)"

definition FAILURE_TEXT :: string where
  "FAILURE_TEXT = ''Sorry, I encountered an error. Please try again.''"

definition FALLBACK_TEXT :: string where
  "FALLBACK_TEXT = ''I received your message but couldn't format a response. Please try again.''"

definition PROCESSING_ERROR_TEXT :: string where
  "PROCESSING_ERROR_TEXT = ''Sorry, I encountered an error processing the response. Please try again.''"

text \<open>The filter callback \<^verbatim>\<open>(p) => p && typeof p.name === 'string'\<close>, by truthiness.\<close>

definition keep_product :: "jsval \<Rightarrow> js_error + bool" where
  "keep_product p =
     (if truthy p then bindE (get p ''name'') (\<lambda>n. Inr (typeof n = ''string''))
      else Inr False)"

text \<open>\<^verbatim>\<open>xs.filter(f)\<close> for a callback that may throw: left to right, the first throw ends it.\<close>

fun filterE :: "('a \<Rightarrow> js_error + bool) \<Rightarrow> 'a list \<Rightarrow> js_error + 'a list" where
  "filterE f [] = Inr []"
| "filterE f (x # xs) =
     bindE (f x) (\<lambda>b. bindE (filterE f xs) (\<lambda>ys. Inr (if b then x # ys else ys)))"

text \<open>
  \<^verbatim>\<open>Array.isArray(o.products) ? o.products.filter(...) : []\<close> (line 185) and the same
  filter at line 217.
\<close>

definition filter_products :: "jsval \<Rightarrow> js_error + jsval list" where
  "filter_products ps = (case ps of JArr xs \<Rightarrow> filterE keep_product xs | _ \<Rightarrow> Inr [])"

text \<open>
  Lines 160-174: choose the candidate \<^verbatim>\<open>parsed\<close> from \<^verbatim>\<open>response.result\<close>. A string that
  does not parse becomes the text and leaves \<^verbatim>\<open>parsed\<close> null.
\<close>

definition resolve_parsed :: "json_parser \<Rightarrow> jsval \<Rightarrow> parse_result \<Rightarrow> jsval \<times> parse_result" where
  "resolve_parsed json_parse raw st =
     (if truthy raw \<and> typeof raw = ''object'' \<and> \<not> isArray raw then (raw, st)
      else if typeof raw = ''string'' then
        (case json_parse raw of
           Some v \<Rightarrow> (v, st)
         | None \<Rightarrow> (JNull, st\<lparr>res_text := raw\<rparr>))
      else (JNull, st))"

text \<open>\<^verbatim>\<open>typeof o.k === 'string' ? o.k : ''\<close>\<close>

definition read_string :: "jsval \<Rightarrow> string \<Rightarrow> js_error + jsval" where
  "read_string obj k = bindE (get obj k) (\<lambda>v. Inr (if typeof v = ''string'' then v else JStr []))"

text \<open>\<^verbatim>\<open>if (!text) text = typeof parsed.k === 'string' ? parsed.k : ''\<close> (lines 180-183).\<close>

definition probe_key :: "jsval \<Rightarrow> string \<Rightarrow> parse_result \<Rightarrow> outcome" where
  "probe_key parsed k st =
     (if \<not> truthy (res_text st)
      then eval_in st (read_string parsed k) (\<lambda>v. Inr (st\<lparr>res_text := v\<rparr>))
      else Inr st)"

text \<open>The condition and choice of lines 189-194, for the value of \<^verbatim>\<open>parsed.comparison\<close>.\<close>

definition accept_comparison :: "jsval \<Rightarrow> jsval" where
  "accept_comparison c =
     (if truthy c \<and> typeof c = ''object'' \<and> \<not> isArray c \<and> isArray (opt_get c ''attributes'')
      then c else JNull)"

text \<open>Lines 177-195: extraction from the candidate.\<close>

definition extract_candidate :: "jsval \<Rightarrow> parse_result \<Rightarrow> outcome" where
  "extract_candidate parsed st =
     (if truthy parsed \<and> typeof parsed = ''object'' then
        then_do (eval_in st (read_string parsed ''response'') (\<lambda>v. Inr (st\<lparr>res_text := v\<rparr>))) (\<lambda>st.
        then_do (probe_key parsed ''text'' st) (\<lambda>st.
        then_do (probe_key parsed ''message'' st) (\<lambda>st.
        then_do (probe_key parsed ''answer'' st) (\<lambda>st.
        then_do (probe_key parsed ''content'' st) (\<lambda>st.
        then_do (eval_in st (bindE (get parsed ''products'') filter_products)
                   (\<lambda>ps. Inr (st\<lparr>res_products := ps\<rparr>))) (\<lambda>st.
        eval_in st (get parsed ''comparison'')
          (\<lambda>c. Inr (st\<lparr>res_comparison := accept_comparison c\<rparr>))))))))
      else Inr st)"

text \<open>Lines 198-200: \<^verbatim>\<open>if (!text) text = response.message || ''\<close>.\<close>

definition message_fallback :: "jsval \<Rightarrow> parse_result \<Rightarrow> outcome" where
  "message_fallback response st =
     (if \<not> truthy (res_text st)
      then eval_in st (get response ''message'') (\<lambda>m. Inr (st\<lparr>res_text := js_or m (JStr [])\<rparr>))
      else Inr st)"

text \<open>
  Lines 214-222, the branch for an \<^verbatim>\<open>innerResult\<close> of type object:
  \<^verbatim>\<open>innerResult.response || innerResult.text || innerResult.message || ''\<close> reads a later
  key only when the earlier ones are falsy; products and comparison are taken only when
  none was found before.
\<close>

definition inner_text :: "jsval \<Rightarrow> js_error + jsval" where
  "inner_text innerResult =
     bindE (get innerResult ''response'') (\<lambda>a.
       if truthy a then Inr a else
       bindE (get innerResult ''text'') (\<lambda>b.
         if truthy b then Inr b else
         bindE (get innerResult ''message'') (\<lambda>c. Inr (js_or c (JStr [])))))"

definition inner_products :: "jsval \<Rightarrow> parse_result \<Rightarrow> outcome" where
  "inner_products innerResult st =
     (if res_products st = [] then
        eval_in st (get innerResult ''products'') (\<lambda>ps.
          if isArray ps
          then eval_in st (filter_products ps) (\<lambda>xs. Inr (st\<lparr>res_products := xs\<rparr>))
          else Inr st)
      else Inr st)"

definition inner_comparison :: "jsval \<Rightarrow> parse_result \<Rightarrow> outcome" where
  "inner_comparison innerResult st =
     (if \<not> truthy (res_comparison st) then
        eval_in st (get innerResult ''comparison'') (\<lambda>c.
          if truthy c \<and> typeof c = ''object'' \<and> isArray (opt_get c ''attributes'')
          then Inr (st\<lparr>res_comparison := c\<rparr>)
          else Inr st)
      else Inr st)"

definition inner_object :: "jsval \<Rightarrow> parse_result \<Rightarrow> outcome" where
  "inner_object innerResult st =
     then_do (eval_in st (inner_text innerResult) (\<lambda>t. Inr (st\<lparr>res_text := t\<rparr>))) (\<lambda>st.
     then_do (inner_products innerResult st) (\<lambda>st.
     inner_comparison innerResult st))"

text \<open>Lines 210-223: the last \<^verbatim>\<open>else if\<close>, on \<^verbatim>\<open>rawParsed?.response?.result\<close>.\<close>

definition raw_nested :: "jsval \<Rightarrow> parse_result \<Rightarrow> outcome" where
  "raw_nested rawParsed st =
     (if truthy (opt_get (opt_get rawParsed ''response'') ''result'') then
        eval_in st (bindE (get rawParsed ''response'') (\<lambda>r. get r ''result'')) (\<lambda>innerResult.
          if typeof innerResult = ''string'' then Inr (st\<lparr>res_text := innerResult\<rparr>)
          else if typeof innerResult = ''object'' then inner_object innerResult st
          else Inr st)
      else Inr st)"

text \<open>Lines 205-223: the body of the inner \<^verbatim>\<open>try\<close>.\<close>

definition raw_try :: "json_parser \<Rightarrow> jsval \<Rightarrow> parse_result \<Rightarrow> outcome" where
  "raw_try json_parse raw_response st =
     (case json_parse raw_response of
        None \<Rightarrow> Inl (SyntaxError, st)
      | Some rawParsed \<Rightarrow>
          if typeof rawParsed = ''string'' then Inr (st\<lparr>res_text := rawParsed\<rparr>)
          else if truthy (opt_get rawParsed ''response'') then
            eval_in st (get rawParsed ''response'') (\<lambda>r.
              if typeof r = ''string'' then Inr (st\<lparr>res_text := r\<rparr>)
              else raw_nested rawParsed st)
          else raw_nested rawParsed st)"

text \<open>
  Lines 224-229: the inner \<^verbatim>\<open>catch\<close>. A non-empty JavaScript string is one of length
  greater than zero.
\<close>

definition raw_catch :: "jsval \<Rightarrow> parse_result \<Rightarrow> outcome" where
  "raw_catch result st =
     eval_in st (get result ''raw_response'') (\<lambda>rr.
       if typeof rr = ''string'' \<and> (case rr of JStr s \<Rightarrow> length s > 0 | _ \<Rightarrow> False)
       then Inr (st\<lparr>res_text := rr\<rparr>)
       else Inr st)"

text \<open>Lines 203-230.\<close>

definition raw_fallback :: "json_parser \<Rightarrow> jsval \<Rightarrow> parse_result \<Rightarrow> outcome" where
  "raw_fallback json_parse result st =
     (if \<not> truthy (res_text st) then
        eval_in st (get result ''raw_response'') (\<lambda>rr.
          if truthy rr then
            (case raw_try json_parse rr st of
               Inr st' \<Rightarrow> Inr st'
             | Inl (e, st') \<Rightarrow> raw_catch result st')
          else Inr st)
      else Inr st)"

text \<open>Lines 233-235.\<close>

definition final_fallback :: "parse_result \<Rightarrow> parse_result" where
  "final_fallback st =
     (if \<not> truthy (res_text st) then st\<lparr>res_text := JStr FALLBACK_TEXT\<rparr> else st)"

text \<open>Line 156: the object returned when the call failed or carried no payload.\<close>

definition failure_result :: "jsval \<Rightarrow> parse_result \<Rightarrow> parse_result" where
  "failure_result result st = st\<lparr>res_text := js_or (opt_get result ''error'') (JStr FAILURE_TEXT)\<rparr>"

text \<open>Lines 159-235, once the guard of line 155 has let the payload through.\<close>

definition parse_payload :: "json_parser \<Rightarrow> jsval \<Rightarrow> jsval \<Rightarrow> parse_result \<Rightarrow> outcome" where
  "parse_payload json_parse result response st =
     eval_in st (get response ''result'') (\<lambda>raw.
       case resolve_parsed json_parse raw st of (parsed, st) \<Rightarrow>
         then_do (extract_candidate parsed st) (\<lambda>st.
         then_do (message_fallback response st) (\<lambda>st.
         then_do (raw_fallback json_parse result st) (\<lambda>st.
         Inr (final_fallback st)))))"

text \<open>
  Lines 150-235: the initial variables and the outer \<^verbatim>\<open>try\<close> block. The guard
  \<^verbatim>\<open>!result || !result.success || !result.response\<close> evaluates left to right and stops
  at the first true disjunct.
\<close>

definition initial_result :: parse_result where
  "initial_result = \<lparr>res_text = JStr [], res_products = [], res_comparison = JNull\<rparr>"

definition parse_try :: "json_parser \<Rightarrow> jsval \<Rightarrow> outcome" where
  "parse_try json_parse result =
     (let st = initial_result in
      if \<not> truthy result then Inr (failure_result result st)
      else eval_in st (get result ''success'') (\<lambda>s.
        if \<not> truthy s then Inr (failure_result result st)
        else eval_in st (get result ''response'') (\<lambda>response.
          if \<not> truthy response then Inr (failure_result result st)
          else parse_payload json_parse result response st)))"

text \<open>
  The whole function: the outer \<^verbatim>\<open>catch\<close> (lines 236-239) replaces the text and the
  function returns the three variables.
\<close>

definition parseAgentResponse :: "json_parser \<Rightarrow> jsval \<Rightarrow> parse_result" where
  "parseAgentResponse json_parse result =
     (case parse_try json_parse result of
        Inr st \<Rightarrow> st
      | Inl (e, st) \<Rightarrow> st\<lparr>res_text := JStr PROCESSING_ERROR_TEXT\<rparr>)"

section \<open>Conversations and the message flow\<close>

datatype role = User | Assistant

text \<open>
  The interfaces \<^verbatim>\<open>Message\<close> and \<^verbatim>\<open>Conversation\<close>. An optional field that is absent (or
  holds \<^verbatim>\<open>undefined\<close>) is \<open>None\<close>. The content is a JavaScript value: the text that
  \<^verbatim>\<open>parseAgentResponse\<close> returns is stored as it comes.
\<close>

record message =
  msg_id :: string
  msg_role :: role
  msg_content :: jsval
  msg_products :: "jsval list option"
  msg_comparison :: "jsval option"
  msg_timestamp :: string
  msg_error :: "bool option"

record conversation =
  conv_id :: string
  conv_sessionId :: string
  conv_title :: string
  conv_messages :: "message list"
  conv_createdAt :: string
  conv_updatedAt :: string

text \<open>The React state of the page that the message flow reads and writes.\<close>

record app_state =
  conversations :: "conversation list"
  activeConversationId :: "string option"
  isLoading :: bool
  inputValue :: string

text \<open>
  \<^verbatim>\<open>String.prototype.trim\<close>. A \<open>char\<close> stands for a UTF-16 code unit below 256; the
  white space and line terminators of ECMAScript in that range are the code units
  9 to 13, 32 and 160.
\<close>

definition is_ws :: "char \<Rightarrow> bool" where
  "is_ws c = (of_char c \<in> {9, 10, 11, 12, 13, 32, 160 :: nat})"

definition trim :: "string \<Rightarrow> string" where
  "trim s = rev (dropWhile is_ws (rev (dropWhile is_ws s)))"

text \<open>\<^verbatim>\<open>conversations.find((c) => c.id === activeConversationId) ?? null\<close>\<close>

definition activeConversation :: "app_state \<Rightarrow> conversation option" where
  "activeConversation st =
     (case activeConversationId st of
        None \<Rightarrow> None
      | Some i \<Rightarrow> find (\<lambda>c. conv_id c = i) (conversations st))"

text \<open>
  \<^verbatim>\<open>generateId()\<close> and \<^verbatim>\<open>new Date().toISOString()\<close> read the clock and the random
  generator. Their results are inputs of the model, one field for each call site.
\<close>

record send_env =
  env_fallbackSessionId :: string
  env_newConvId :: string
  env_newConvSessionId :: string
  env_newConvCreatedAt :: string
  env_newConvUpdatedAt :: string
  env_userMsgId :: string
  env_userMsgTimestamp :: string
  env_userUpdatedAt :: string

record reply_env =
  env_replyMsgId :: string
  env_replyTimestamp :: string
  env_replyUpdatedAt :: string

text \<open>
  What the asynchronous call keeps in its closure while it awaits the gateway: the local
  variables \<^verbatim>\<open>convId\<close>, \<^verbatim>\<open>sessionId\<close> and \<^verbatim>\<open>trimmed\<close>.
\<close>

record pending =
  pend_convId :: string
  pend_sessionId :: string
  pend_trimmed :: string

datatype call_outcome = Returned | Awaiting pending | Thrown js_error

text \<open>The updater of lines 705-716, which appends the user message.\<close>

definition append_user :: "string \<Rightarrow> message \<Rightarrow> string \<Rightarrow> string \<Rightarrow> conversation \<Rightarrow> conversation" where
  "append_user convId userMsg trimmed now c =
     (if conv_id c \<noteq> convId then c
      else c\<lparr>conv_title := (if length (conv_messages c) = 0 then take 50 trimmed else conv_title c),
             conv_messages := conv_messages c @ [userMsg],
             conv_updatedAt := now\<rparr>)"

text \<open>The updater of lines 736-745 and 755-764, which appends the reply.\<close>

definition append_reply :: "string \<Rightarrow> message \<Rightarrow> string \<Rightarrow> conversation \<Rightarrow> conversation" where
  "append_reply convId msg now c =
     (if conv_id c \<noteq> convId then c
      else c\<lparr>conv_messages := conv_messages c @ [msg], conv_updatedAt := now\<rparr>)"

text \<open>Lines 698-703: the user message, which has no products, comparison or error field.\<close>

definition userMsg :: "send_env \<Rightarrow> string \<Rightarrow> message" where
  "userMsg env trimmed =
     \<lparr>msg_id = env_userMsgId env,
      msg_role = User,
      msg_content = JStr trimmed,
      msg_products = None,
      msg_comparison = None,
      msg_timestamp = env_userMsgTimestamp env,
      msg_error = None\<rparr>"

text \<open>
  \<^verbatim>\<open>sendMessage\<close> up to its \<^verbatim>\<open>await\<close> (lines 674-723). The handler runs on the latest
  render, so the values in its closure (\<^verbatim>\<open>activeConversationId\<close>, \<^verbatim>\<open>activeConversation\<close>,
  \<^verbatim>\<open>isLoading\<close>) are those of the current state; the state updates are functional updates
  applied in the order they are queued. \<^verbatim>\<open>!convId\<close> holds for \<^verbatim>\<open>null\<close> and for the empty
  string.
\<close>

definition sendMessage_begin :: "send_env \<Rightarrow> string \<Rightarrow> app_state \<Rightarrow> app_state \<times> call_outcome" where
  "sendMessage_begin env text_in st =
     (let trimmed = trim text_in in
      if trimmed = [] \<or> isLoading st then (st, Returned)
      else
        let convId0 = activeConversationId st;
            sessionId0 = (case activeConversation st of
                            Some c \<Rightarrow> conv_sessionId c
                          | None \<Rightarrow> env_fallbackSessionId env);
            create = (case convId0 of None \<Rightarrow> True | Some i \<Rightarrow> i = []);
            newConv = \<lparr>conv_id = env_newConvId env,
                       conv_sessionId = env_newConvSessionId env,
                       conv_title = take 50 trimmed,
                       conv_messages = [],
                       conv_createdAt = env_newConvCreatedAt env,
                       conv_updatedAt = env_newConvUpdatedAt env\<rparr>;
            sessionId = (if create then conv_sessionId newConv else sessionId0);
            convId = (case convId0 of
                        None \<Rightarrow> conv_id newConv
                      | Some i \<Rightarrow> if i = [] then conv_id newConv else i);
            st1 = (if create
                   then st\<lparr>conversations := newConv # conversations st,
                           activeConversationId := Some (conv_id newConv)\<rparr>
                   else st);
            st2 = st1\<lparr>conversations :=
                         map (append_user convId (userMsg env trimmed) trimmed
                                (env_userUpdatedAt env))
                           (conversations st1),
                       inputValue := [],
                       isLoading := True\<rparr>
        in (st2, Awaiting \<lparr>pend_convId = convId, pend_sessionId = sessionId,
                            pend_trimmed = trimmed\<rparr>))"

text \<open>The two ways the awaited gateway call ends.\<close>

datatype gateway_reply = Resolved jsval | Rejected

text \<open>Lines 727-734 and 748-754: the two messages a turn can end with.\<close>

definition assistantMsg :: "json_parser \<Rightarrow> reply_env \<Rightarrow> jsval \<Rightarrow> message" where
  "assistantMsg json_parse env result =
     (let r = parseAgentResponse json_parse result in
      \<lparr>msg_id = env_replyMsgId env,
       msg_role = Assistant,
       msg_content = res_text r,
       msg_products = (if length (res_products r) > 0 then Some (res_products r) else None),
       msg_comparison = (if nullish (res_comparison r) then None else Some (res_comparison r)),
       msg_timestamp = env_replyTimestamp env,
       msg_error = None\<rparr>)"

definition errorMsg :: "reply_env \<Rightarrow> message" where
  "errorMsg env =
     \<lparr>msg_id = env_replyMsgId env,
      msg_role = Assistant,
      msg_content = JStr ''Something went wrong. Please try again.'',
      msg_products = None,
      msg_comparison = None,
      msg_timestamp = env_replyTimestamp env,
      msg_error = Some True\<rparr>"

text \<open>
  The \<^verbatim>\<open>try\<close> block of lines 721-745 throws when the gateway call rejects, and also when
  it resolves with \<^verbatim>\<open>undefined\<close>: \<^verbatim>\<open>JSON.stringify(undefined)\<close> is \<^verbatim>\<open>undefined\<close>, and
  reading \<^verbatim>\<open>substring\<close> of it is a TypeError (line 724). Nothing else in the block
  throws.
\<close>

definition reply_throws :: "gateway_reply \<Rightarrow> bool" where
  "reply_throws g = (case g of Rejected \<Rightarrow> True | Resolved result \<Rightarrow> result = JUndefined)"

definition reply_message :: "json_parser \<Rightarrow> reply_env \<Rightarrow> gateway_reply \<Rightarrow> message" where
  "reply_message json_parse env g =
     (case g of
        Rejected \<Rightarrow> errorMsg env
      | Resolved result \<Rightarrow>
          if result = JUndefined then errorMsg env else assistantMsg json_parse env result)"

text \<open>
  \<^verbatim>\<open>sendMessage\<close> from the moment the awaited call settles (lines 724-768), applied to
  the state as it is then; \<^verbatim>\<open>finally\<close> clears the loading flag on either path.
\<close>

definition sendMessage_finish ::
  "json_parser \<Rightarrow> reply_env \<Rightarrow> pending \<Rightarrow> gateway_reply \<Rightarrow> app_state \<Rightarrow> app_state" where
  "sendMessage_finish json_parse env pend g st =
     st\<lparr>conversations :=
          map (append_reply (pend_convId pend) (reply_message json_parse env g)
                 (env_replyUpdatedAt env))
            (conversations st),
        isLoading := False\<rparr>"

text \<open>\<^verbatim>\<open>!m.error\<close>\<close>

definition not_error :: "message \<Rightarrow> bool" where
  "not_error m = (msg_error m \<noteq> Some True)"

text \<open>The updater of lines 780-786, which drops the error messages of the active conversation.\<close>

definition drop_errors :: "string option \<Rightarrow> conversation \<Rightarrow> conversation" where
  "drop_errors active c =
     (if Some (conv_id c) \<noteq> active then c
      else c\<lparr>conv_messages := filter not_error (conv_messages c)\<rparr>)"

text \<open>
  \<^verbatim>\<open>retryLastMessage\<close> (lines 773-789). It passes the content of the last user message
  to \<^verbatim>\<open>sendMessage\<close>, whose first statement \<^verbatim>\<open>text.trim()\<close> is a TypeError for anything but
  a string; the update that dropped the error messages is queued by then.
\<close>

definition retryLastMessage :: "send_env \<Rightarrow> app_state \<Rightarrow> app_state \<times> call_outcome" where
  "retryLastMessage env st =
     (case activeConversation st of
        None \<Rightarrow> (st, Returned)
      | Some ac \<Rightarrow>
          let msgs = conv_messages ac in
          if length msgs < 2 then (st, Returned)
          else
            (case find (\<lambda>m. msg_role m = User) (rev msgs) of
               None \<Rightarrow> (st, Returned)
             | Some lastUserMsg \<Rightarrow>
                 let st' = st\<lparr>conversations :=
                                map (drop_errors (activeConversationId st)) (conversations st)\<rparr>
                 in (case msg_content lastUserMsg of
                       JStr s \<Rightarrow> sendMessage_begin env s st'
                     | _ \<Rightarrow> (st', Thrown TypeError))))"

text \<open>\<^verbatim>\<open>createNewConversation\<close> (lines 657-671) and the selection of a conversation (line 856).\<close>

definition createNewConversation :: "send_env \<Rightarrow> app_state \<Rightarrow> app_state" where
  "createNewConversation env st =
     st\<lparr>conversations :=
          \<lparr>conv_id = env_newConvId env,
           conv_sessionId = env_newConvSessionId env,
           conv_title = ''New Conversation'',
           conv_messages = [],
           conv_createdAt = env_newConvCreatedAt env,
           conv_updatedAt = env_newConvUpdatedAt env\<rparr> # conversations st,
        activeConversationId := Some (env_newConvId env),
        inputValue := []\<rparr>"

definition selectConversation :: "string \<Rightarrow> app_state \<Rightarrow> app_state" where
  "selectConversation i st = st\<lparr>activeConversationId := Some i\<rparr>"

definition initial_state :: app_state where
  "initial_state = \<lparr>conversations = [], activeConversationId = None, isLoading = False,
                    inputValue = []\<rparr>"

text \<open>
  A whole turn when nothing else happens between the call and its reply: the awaited
  call settles with \<open>g\<close> in the state the synchronous part left.
\<close>

definition complete_turn ::
  "json_parser \<Rightarrow> reply_env \<Rightarrow> gateway_reply \<Rightarrow> app_state \<times> call_outcome \<Rightarrow> app_state" where
  "complete_turn json_parse renv g r =
     (case r of
        (st, Awaiting pend) \<Rightarrow> sendMessage_finish json_parse renv pend g st
      | (st, _) \<Rightarrow> st)"

text \<open>
  The operations of the message flow as events, so that any interleaving can be run: a
  reply may arrive after other events, for any call that is pending.
\<close>

datatype event =
    Send send_env string
  | Reply reply_env pending gateway_reply
  | Retry send_env
  | Create send_env
  | Select string

fun apply_event :: "json_parser \<Rightarrow> app_state \<Rightarrow> event \<Rightarrow> app_state" where
  "apply_event json_parse st (Send env text_in) = fst (sendMessage_begin env text_in st)"
| "apply_event json_parse st (Reply renv pend g) = sendMessage_finish json_parse renv pend g st"
| "apply_event json_parse st (Retry env) = fst (retryLastMessage env st)"
| "apply_event json_parse st (Create env) = createNewConversation env st"
| "apply_event json_parse st (Select i) = selectConversation i st"

definition run_events :: "json_parser \<Rightarrow> event list \<Rightarrow> app_state \<Rightarrow> app_state" where
  "run_events json_parse evs st = foldl (apply_event json_parse) st evs"

section \<open>Properties named by the specification\<close>

text \<open>An object whose \<^verbatim>\<open>name\<close> field is a string.\<close>

definition is_named_object :: "jsval \<Rightarrow> bool" where
  "is_named_object v =
     (case v of
        JObj kvs \<Rightarrow> (case map_of kvs ''name'' of Some (JStr s) \<Rightarrow> True | _ \<Rightarrow> False)
      | _ \<Rightarrow> False)"

definition named_products :: "jsval \<Rightarrow> jsval list" where
  "named_products ps = (case ps of JArr xs \<Rightarrow> filter is_named_object xs | _ \<Rightarrow> [])"

text \<open>
  The first non-empty string among the values of the given keys, in their order: the
  specification's rule for the text of a candidate object.
\<close>

definition nonempty_string :: "jsval \<Rightarrow> string option" where
  "nonempty_string v = (case v of JStr s \<Rightarrow> (if s \<noteq> [] then Some s else None) | _ \<Rightarrow> None)"

fun first_text :: "jsval \<Rightarrow> string list \<Rightarrow> string option" where
  "first_text obj [] = None"
| "first_text obj (k # ks) =
     (case nonempty_string (js_prop obj k) of
        Some s \<Rightarrow> Some s
      | None \<Rightarrow> first_text obj ks)"

definition TEXT_KEYS :: "string list" where
  "TEXT_KEYS = [''response'', ''text'', ''message'', ''answer'', ''content'']"

text \<open>A single object, not a list, whose \<^verbatim>\<open>attributes\<close> field is a list.\<close>

definition valid_comparison :: "jsval \<Rightarrow> bool" where
  "valid_comparison c =
     (case c of
        JObj kvs \<Rightarrow> (case map_of kvs ''attributes'' of Some (JArr xs) \<Rightarrow> True | _ \<Rightarrow> False)
      | _ \<Rightarrow> False)"

text \<open>The guard of line 155 lets the payload through.\<close>

definition payload_through :: "jsval \<Rightarrow> bool" where
  "payload_through result =
     (truthy result \<and> truthy (js_prop result ''success'') \<and> truthy (js_prop result ''response''))"

text \<open>
  The variables after the extraction from the candidate and after the fallback to
  \<^verbatim>\<open>response.message\<close>, in closed form; \<open>extract_candidate_after\<close> and
  \<open>message_fallback_eq\<close> below show that the code computes them.
\<close>

definition after_candidate :: "jsval \<Rightarrow> parse_result \<Rightarrow> parse_result" where
  "after_candidate parsed st =
     (if truthy parsed \<and> typeof parsed = ''object'' then
        \<lparr>res_text = (case first_text parsed TEXT_KEYS of Some s \<Rightarrow> JStr s | None \<Rightarrow> JStr []),
         res_products = named_products (js_prop parsed ''products''),
         res_comparison = accept_comparison (js_prop parsed ''comparison'')\<rparr>
      else st)"

definition after_message :: "jsval \<Rightarrow> parse_result \<Rightarrow> parse_result" where
  "after_message response st =
     (if truthy (res_text st) then st
      else st\<lparr>res_text := js_or (js_prop response ''message'') (JStr [])\<rparr>)"

text \<open>
  What the fallback to \<^verbatim>\<open>raw_response\<close> may change besides the text: products only when
  none were found before, comparison only when none was found before, and then only to
  entries and a comparison that pass the same checks.
\<close>

definition fallback_frame :: "parse_result \<Rightarrow> parse_result \<Rightarrow> bool" where
  "fallback_frame st st' =
     ((res_products st' = res_products st \<or>
       res_products st = [] \<and> (\<forall>e \<in> set (res_products st'). is_named_object e)) \<and>
      (res_comparison st' = res_comparison st \<or>
       \<not> truthy (res_comparison st) \<and> valid_comparison (res_comparison st')))"

text \<open>
  The data-model invariant of a message: a user message carries no products, comparison
  or error flag, and an error message carries no products or comparison.
\<close>

definition msg_ok :: "message \<Rightarrow> bool" where
  "msg_ok m =
     ((msg_role m = User \<longrightarrow>
         msg_products m = None \<and> msg_comparison m = None \<and> msg_error m = None) \<and>
      (msg_error m = Some True \<longrightarrow> msg_products m = None \<and> msg_comparison m = None))"

definition state_ok :: "app_state \<Rightarrow> bool" where
  "state_ok st = (\<forall>c \<in> set (conversations st). \<forall>m \<in> set (conv_messages c). msg_ok m)"

definition user_count :: "message list \<Rightarrow> nat" where
  "user_count ms = length (filter (\<lambda>m. msg_role m = User) ms)"

section \<open>Example inputs\<close>

text \<open>
  \<^verbatim>\<open>JSON.parse\<close> on the two texts the examples parse. The examples pass it no other
  argument.
\<close>

definition json_parse_sample :: json_parser where
  \<open>json_parse_sample v =
     (if v = JStr ''{"response":{"result":{"comparison":{"attributes":[]}}}}''
      then Some (JObj [(''response'', JObj [(''result'',
                  JObj [(''comparison'', JObj [(''attributes'', JArr [])])])])])
      else if v = JStr ''{"response":"Try HubSpot","products":[{"name":"HubSpot CRM"}]}''
      then Some (JObj [(''response'', JStr ''Try HubSpot''),
                       (''products'', JArr [JObj [(''name'', JStr ''HubSpot CRM'')]])])
      else None)\<close>

definition example_send_env :: send_env where
  "example_send_env =
     \<lparr>env_fallbackSessionId = ''s0'', env_newConvId = ''c1'', env_newConvSessionId = ''s1'',
      env_newConvCreatedAt = ''t0'', env_newConvUpdatedAt = ''t0'', env_userMsgId = ''m1'',
      env_userMsgTimestamp = ''t1'', env_userUpdatedAt = ''t1''\<rparr>"

definition example_reply_env :: reply_env where
  "example_reply_env =
     \<lparr>env_replyMsgId = ''m2'', env_replyTimestamp = ''t2'', env_replyUpdatedAt = ''t2''\<rparr>"

definition example_send_env2 :: send_env where
  "example_send_env2 =
     \<lparr>env_fallbackSessionId = ''s2'', env_newConvId = ''c2'', env_newConvSessionId = ''s3'',
      env_newConvCreatedAt = ''t3'', env_newConvUpdatedAt = ''t3'', env_userMsgId = ''m3'',
      env_userMsgTimestamp = ''t4'', env_userUpdatedAt = ''t4''\<rparr>"

definition example_reply_env2 :: reply_env where
  "example_reply_env2 =
     \<lparr>env_replyMsgId = ''m4'', env_replyTimestamp = ''t5'', env_replyUpdatedAt = ''t5''\<rparr>"

text \<open>
  A reply whose \<^verbatim>\<open>result\<close> is a JSON text, the pending call of a first submission
  \<^verbatim>\<open>hi\<close>, and the state after that submission failed.
\<close>

definition example_agent_reply :: jsval where
  \<open>example_agent_reply =
     JObj [(''success'', JBool True),
           (''response'', JObj [(''result'',
              JStr ''{"response":"Try HubSpot","products":[{"name":"HubSpot CRM"}]}'')])]\<close>

definition example_pending :: pending where
  "example_pending = \<lparr>pend_convId = ''c1'', pend_sessionId = ''s1'', pend_trimmed = ''hi''\<rparr>"

definition example_failed_state :: app_state where
  "example_failed_state =
     complete_turn json_parse_sample example_reply_env Rejected
       (sendMessage_begin example_send_env ''hi'' initial_state)"

section \<open>Auxiliary facts\<close>

lemma truthy_not_nullish: "truthy v \<Longrightarrow> \<not> nullish v"
  by (cases v) (auto simp: nullish_def)

lemma get_truthy: "truthy v \<Longrightarrow> get v k = Inr (js_prop v k)"
  by (simp add: get_def truthy_not_nullish)

lemma opt_get_eq: "opt_get v k = js_prop v k"
  by (cases v) (auto simp: opt_get_def nullish_def)

lemma typeof_string_iff: "typeof v = ''string'' \<longleftrightarrow> (\<exists>s. v = JStr s)"
  by (cases v) auto

lemma keep_product_eq: "keep_product p = Inr (is_named_object p)"
  by (cases p)
     (auto simp: keep_product_def is_named_object_def bindE_def get_def nullish_def
           typeof_string_iff split: option.splits jsval.splits)

lemma filterE_keep_product: "filterE keep_product xs = Inr (filter is_named_object xs)"
  by (induction xs) (auto simp: keep_product_eq bindE_def)

lemma filter_products_eq: "filter_products ps = Inr (named_products ps)"
  by (cases ps) (simp_all add: filter_products_def named_products_def filterE_keep_product)

lemma read_string_eq:
  "truthy obj \<Longrightarrow>
   read_string obj k = Inr (case nonempty_string (js_prop obj k) of Some s \<Rightarrow> JStr s | None \<Rightarrow> JStr [])"
  by (cases "js_prop obj k")
     (simp_all add: read_string_def get_truthy bindE_def nonempty_string_def)

lemma probe_key_eq:
  "truthy obj \<Longrightarrow>
   probe_key obj k st =
     Inr (if truthy (res_text st) then st
          else st\<lparr>res_text := (case nonempty_string (js_prop obj k) of Some s \<Rightarrow> JStr s | None \<Rightarrow> JStr [])\<rparr>)"
  by (simp add: probe_key_def read_string_eq eval_in_def)

lemma nonempty_string_Some: "nonempty_string v = Some s \<Longrightarrow> s \<noteq> []"
  by (cases v) (auto simp: nonempty_string_def split: if_splits)

lemma extract_candidate_eq:
  assumes "truthy parsed" "typeof parsed = ''object''"
  shows "extract_candidate parsed st =
           Inr \<lparr>res_text = (case first_text parsed TEXT_KEYS of Some s \<Rightarrow> JStr s | None \<Rightarrow> JStr []),
                res_products = named_products (js_prop parsed ''products''),
                res_comparison = accept_comparison (js_prop parsed ''comparison'')\<rparr>"
  using assms
  by (auto simp: extract_candidate_def probe_key_eq read_string_eq eval_in_def then_do_def
        get_truthy bindE_def filter_products_eq TEXT_KEYS_def
        dest: nonempty_string_Some split: option.splits)

lemma extract_candidate_skip:
  "\<not> (truthy parsed \<and> typeof parsed = ''object'') \<Longrightarrow> extract_candidate parsed st = Inr st"
  by (auto simp: extract_candidate_def)

lemma message_fallback_eq:
  "truthy response \<Longrightarrow>
   message_fallback response st =
     Inr (if truthy (res_text st) then st
          else st\<lparr>res_text := js_or (js_prop response ''message'') (JStr [])\<rparr>)"
  by (simp add: message_fallback_def eval_in_def get_truthy)

lemma fallback_frame_refl: "fallback_frame st st"
  by (simp add: fallback_frame_def)

lemma fallback_frame_text: "fallback_frame st (st\<lparr>res_text := t\<rparr>)"
  by (simp add: fallback_frame_def)

lemma truthy_prop_receiver: "truthy (js_prop v k) \<Longrightarrow> truthy v"
  by (cases v) auto

lemma isArray_iff: "isArray v \<longleftrightarrow> (\<exists>xs. v = JArr xs)"
  by (cases v) auto

lemma accept_comparison_cases:
  "accept_comparison c = (if valid_comparison c then c else JNull)"
  by (cases c)
     (auto simp: accept_comparison_def valid_comparison_def opt_get_eq isArray_iff
           split: option.splits jsval.splits)

lemma inner_check_valid:
  "truthy c \<and> typeof c = ''object'' \<and> isArray (opt_get c ''attributes'') \<longleftrightarrow> valid_comparison c"
  by (cases c)
     (auto simp: valid_comparison_def opt_get_eq isArray_iff split: option.splits jsval.splits)

lemma set_named_products: "e \<in> set (named_products ps) \<Longrightarrow> is_named_object e"
  by (cases ps) (auto simp: named_products_def)

lemma inner_text_ok: "truthy ir \<Longrightarrow> \<exists>t. inner_text ir = Inr t"
  by (simp add: inner_text_def get_truthy bindE_def)

lemma inner_products_ok:
  "truthy ir \<Longrightarrow>
   \<exists>st'. inner_products ir st = Inr st' \<and> res_text st' = res_text st \<and> fallback_frame st st'"
  by (auto simp: inner_products_def get_truthy eval_in_def filter_products_eq fallback_frame_def
        dest: set_named_products)

lemma inner_comparison_ok:
  "truthy ir \<Longrightarrow>
   \<exists>st'. inner_comparison ir st = Inr st' \<and> res_text st' = res_text st \<and> fallback_frame st st'"
  using inner_check_valid [of "js_prop ir ''comparison''"]
  by (auto simp: inner_comparison_def get_truthy eval_in_def fallback_frame_def)

lemma fallback_frame_trans:
  "fallback_frame a b \<Longrightarrow> fallback_frame b c \<Longrightarrow> fallback_frame a c"
  unfolding fallback_frame_def
  by (cases "res_products b = res_products a"; cases "res_comparison b = res_comparison a") auto

lemma inner_object_ok:
  assumes "truthy ir"
  shows "\<exists>st'. inner_object ir st = Inr st' \<and> fallback_frame st st'"
proof -
  obtain t where t: "inner_text ir = Inr t"
    using inner_text_ok [OF assms] by blast
  let ?s1 = "st\<lparr>res_text := t\<rparr>"
  obtain s2 where s2: "inner_products ir ?s1 = Inr s2" "fallback_frame ?s1 s2"
    using inner_products_ok [OF assms, of ?s1] by blast
  obtain s3 where s3: "inner_comparison ir s2 = Inr s3" "fallback_frame s2 s3"
    using inner_comparison_ok [OF assms, of s2] by blast
  have "inner_object ir st = Inr s3"
    by (simp add: inner_object_def t s2 s3 eval_in_def then_do_def)
  moreover have "fallback_frame st s3"
    using fallback_frame_text [of st t] s2(2) s3(2) by (blast intro: fallback_frame_trans)
  ultimately show ?thesis by blast
qed

lemma raw_nested_ok: "\<exists>st'. raw_nested rp st = Inr st' \<and> fallback_frame st st'"
proof (cases "truthy (js_prop (js_prop rp ''response'') ''result'')")
  case False
  then show ?thesis
    by (simp add: raw_nested_def opt_get_eq fallback_frame_refl)
next
  case True
  let ?ir = "js_prop (js_prop rp ''response'') ''result''"
  have r: "truthy (js_prop rp ''response'')" and p: "truthy rp"
    using True truthy_prop_receiver by blast+
  have e: "bindE (get rp ''response'') (\<lambda>r. get r ''result'') = Inr ?ir"
    by (simp add: get_truthy p r bindE_def)
  show ?thesis
    using inner_object_ok [OF True, of st]
    by (auto simp: raw_nested_def opt_get_eq True e eval_in_def fallback_frame_text
          fallback_frame_refl)
qed

lemma raw_try_ok:
  "raw_try json_parse rr st = Inl (SyntaxError, st) \<and> json_parse rr = None \<or>
   (\<exists>st'. raw_try json_parse rr st = Inr st' \<and> fallback_frame st st')"
proof (cases "json_parse rr")
  case None
  then show ?thesis by (simp add: raw_try_def)
next
  case (Some rp)
  have "truthy (js_prop rp ''response'') \<Longrightarrow> get rp ''response'' = Inr (js_prop rp ''response'')"
    using truthy_prop_receiver get_truthy by blast
  then show ?thesis
    using raw_nested_ok [of rp st]
    by (auto simp: raw_try_def Some opt_get_eq eval_in_def fallback_frame_text)
qed

lemma raw_catch_ok:
  "truthy result \<Longrightarrow> \<exists>st'. raw_catch result st = Inr st' \<and> fallback_frame st st'"
  by (auto simp: raw_catch_def get_truthy eval_in_def fallback_frame_text fallback_frame_refl)

lemma raw_fallback_ok:
  assumes "truthy result"
  shows "\<exists>st'. raw_fallback json_parse result st = Inr st' \<and> fallback_frame st st' \<and>
           (truthy (res_text st) \<or> \<not> truthy (js_prop result ''raw_response'') \<longrightarrow> st' = st)"
proof (cases "\<not> truthy (res_text st) \<and> truthy (js_prop result ''raw_response'')")
  case False
  then show ?thesis
    using assms by (auto simp: raw_fallback_def get_truthy eval_in_def fallback_frame_refl)
next
  case True
  let ?rr = "js_prop result ''raw_response''"
  from raw_try_ok [of json_parse ?rr st] show ?thesis
  proof
    assume "raw_try json_parse ?rr st = Inl (SyntaxError, st) \<and> json_parse ?rr = None"
    then show ?thesis
      using True assms raw_catch_ok [OF assms, of st]
      by (auto simp: raw_fallback_def get_truthy eval_in_def)
  next
    assume "\<exists>st'. raw_try json_parse ?rr st = Inr st' \<and> fallback_frame st st'"
    then show ?thesis
      using True assms by (auto simp: raw_fallback_def get_truthy eval_in_def)
  qed
qed

lemma extract_candidate_after: "extract_candidate parsed st = Inr (after_candidate parsed st)"
  by (cases "truthy parsed \<and> typeof parsed = ''object''")
     (auto simp: after_candidate_def extract_candidate_eq extract_candidate_skip)

lemma parse_try_failure:
  "\<not> payload_through result \<Longrightarrow>
   parse_try json_parse result = Inr (failure_result result initial_result)"
  by (auto simp: parse_try_def payload_through_def Let_def eval_in_def get_truthy)

lemma parse_try_through:
  assumes "payload_through result"
    and "resolve_parsed json_parse (js_prop (js_prop result ''response'') ''result'') initial_result
           = (parsed, st0)"
  shows "\<exists>st3. raw_fallback json_parse result
                 (after_message (js_prop result ''response'') (after_candidate parsed st0)) = Inr st3
             \<and> parse_try json_parse result = Inr (final_fallback st3)
             \<and> fallback_frame (after_message (js_prop result ''response'') (after_candidate parsed st0)) st3
             \<and> (truthy (res_text (after_message (js_prop result ''response'') (after_candidate parsed st0)))
                  \<or> \<not> truthy (js_prop result ''raw_response'')
                \<longrightarrow> st3 = after_message (js_prop result ''response'') (after_candidate parsed st0))"
proof -
  let ?resp = "js_prop result ''response''"
  let ?st2 = "after_message ?resp (after_candidate parsed st0)"
  have t: "truthy result" "truthy (js_prop result ''success'')" "truthy ?resp"
    using assms(1) by (simp_all add: payload_through_def)
  obtain st3 where st3: "raw_fallback json_parse result ?st2 = Inr st3" "fallback_frame ?st2 st3"
    "truthy (res_text ?st2) \<or> \<not> truthy (js_prop result ''raw_response'') \<longrightarrow> st3 = ?st2"
    using raw_fallback_ok [OF t(1), of json_parse ?st2] by blast
  have m: "message_fallback ?resp (after_candidate parsed st0) = Inr ?st2"
    by (simp add: message_fallback_eq t after_message_def)
  have "parse_payload json_parse result ?resp initial_result = Inr (final_fallback st3)"
    by (simp add: parse_payload_def get_truthy t eval_in_def assms(2) extract_candidate_after
          then_do_def m st3(1))
  then have "parse_try json_parse result = Inr (final_fallback st3)"
    using t by (simp add: parse_try_def Let_def eval_in_def get_truthy)
  then show ?thesis using st3 by blast
qed




lemma resolve_parsed_products:
  "resolve_parsed json_parse raw st = (parsed, st0) \<Longrightarrow> res_products st0 = res_products st \<and> res_comparison st0 = res_comparison st"
  by (auto simp: resolve_parsed_def split: if_splits option.splits)

lemma parseAgentResponse_failure:
  "\<not> payload_through result \<Longrightarrow>
   parseAgentResponse json_parse result = failure_result result initial_result"
  by (simp add: parseAgentResponse_def parse_try_failure)

lemma parseAgentResponse_through:
  assumes "payload_through result"
    and "resolve_parsed json_parse (js_prop (js_prop result ''response'') ''result'') initial_result
           = (parsed, st0)"
  shows "\<exists>st3. raw_fallback json_parse result
                 (after_message (js_prop result ''response'') (after_candidate parsed st0)) = Inr st3
             \<and> parseAgentResponse json_parse result = final_fallback st3
             \<and> fallback_frame (after_message (js_prop result ''response'') (after_candidate parsed st0)) st3
             \<and> (truthy (res_text (after_message (js_prop result ''response'') (after_candidate parsed st0)))
                  \<or> \<not> truthy (js_prop result ''raw_response'')
                \<longrightarrow> st3 = after_message (js_prop result ''response'') (after_candidate parsed st0))"
  using parse_try_through [OF assms] by (auto simp: parseAgentResponse_def)

lemma final_fallback_keeps:
  "res_products (final_fallback st) = res_products st"
  "res_comparison (final_fallback st) = res_comparison st"
  "truthy (res_text st) \<Longrightarrow> final_fallback st = st"
  "\<not> truthy (res_text st) \<Longrightarrow> final_fallback st = st\<lparr>res_text := JStr FALLBACK_TEXT\<rparr>"
  by (simp_all add: final_fallback_def)

lemma after_message_keeps:
  "res_products (after_message r st) = res_products st"
  "res_comparison (after_message r st) = res_comparison st"
  "truthy (res_text st) \<Longrightarrow> after_message r st = st"
  by (simp_all add: after_message_def)

lemma after_candidate_products:
  "res_products st = [] \<Longrightarrow> e \<in> set (res_products (after_candidate parsed st)) \<Longrightarrow> is_named_object e"
  by (auto simp: after_candidate_def dest: set_named_products split: if_splits)

lemma resolve_parsed_initial:
  "resolve_parsed json_parse raw initial_result = (parsed, st0) \<Longrightarrow>
   res_products st0 = [] \<and> res_comparison st0 = JNull"
  using resolve_parsed_products [of json_parse raw initial_result parsed st0]
  by (simp add: initial_result_def)

lemma all_products_named:
  "e \<in> set (res_products (parseAgentResponse json_parse result)) \<Longrightarrow> is_named_object e"
proof (cases "payload_through result")
  case False
  assume "e \<in> set (res_products (parseAgentResponse json_parse result))"
  then show ?thesis
    using False by (simp add: parseAgentResponse_failure failure_result_def initial_result_def)
next
  case True
  assume e: "e \<in> set (res_products (parseAgentResponse json_parse result))"
  obtain parsed st0 where r:
    "resolve_parsed json_parse (js_prop (js_prop result ''response'') ''result'') initial_result
       = (parsed, st0)"
    by (cases "resolve_parsed json_parse (js_prop (js_prop result ''response'') ''result'') initial_result")
  let ?st2 = "after_message (js_prop result ''response'') (after_candidate parsed st0)"
  obtain st3 where st3: "parseAgentResponse json_parse result = final_fallback st3"
    "fallback_frame ?st2 st3"
    using parseAgentResponse_through [OF True r] by blast
  have "e \<in> set (res_products st3)"
    using e by (simp add: st3(1) final_fallback_keeps)
  moreover have "\<forall>x \<in> set (res_products ?st2). is_named_object x"
    using resolve_parsed_initial [OF r] after_candidate_products [of st0 _ parsed]
    by (simp add: after_message_keeps)
  ultimately show ?thesis
    using st3(2) by (auto simp: fallback_frame_def)
qed

lemma candidate_products_survive:
  assumes "payload_through result"
    and "resolve_parsed json_parse (js_prop (js_prop result ''response'') ''result'') initial_result
           = (parsed, st0)"
    and "truthy parsed" "typeof parsed = ''object''"
    and "js_prop parsed ''products'' = JArr xs"
    and "filter is_named_object xs \<noteq> []"
  shows "res_products (parseAgentResponse json_parse result) = filter is_named_object xs"
proof -
  let ?st2 = "after_message (js_prop result ''response'') (after_candidate parsed st0)"
  obtain st3 where st3: "parseAgentResponse json_parse result = final_fallback st3"
    "fallback_frame ?st2 st3"
    using parseAgentResponse_through [OF assms(1,2)] by blast
  have "res_products ?st2 = filter is_named_object xs"
    using assms(3-5) by (simp add: after_message_keeps after_candidate_def named_products_def)
  then show ?thesis
    using st3 assms(6) by (auto simp: fallback_frame_def final_fallback_keeps)
qed

lemma valid_comparison_truthy: "valid_comparison c \<Longrightarrow> truthy c"
  by (cases c) (auto simp: valid_comparison_def)

lemma comparison_null_or_valid:
  "res_comparison (parseAgentResponse json_parse result) = JNull \<or>
   valid_comparison (res_comparison (parseAgentResponse json_parse result))"
proof (cases "payload_through result")
  case False
  then show ?thesis
    by (simp add: parseAgentResponse_failure failure_result_def initial_result_def)
next
  case True
  obtain parsed st0 where r:
    "resolve_parsed json_parse (js_prop (js_prop result ''response'') ''result'') initial_result
       = (parsed, st0)"
    by (cases "resolve_parsed json_parse (js_prop (js_prop result ''response'') ''result'') initial_result")
  let ?st2 = "after_message (js_prop result ''response'') (after_candidate parsed st0)"
  obtain st3 where st3: "parseAgentResponse json_parse result = final_fallback st3"
    "fallback_frame ?st2 st3"
    using parseAgentResponse_through [OF True r] by blast
  have "res_comparison ?st2 = JNull \<or> valid_comparison (res_comparison ?st2)"
    using resolve_parsed_initial [OF r]
    by (auto simp: after_message_keeps after_candidate_def accept_comparison_cases)
  then show ?thesis
    using st3 by (auto simp: fallback_frame_def final_fallback_keeps)
qed

lemma invalid_comparison_iff:
  "isArray c \<or> \<not> isArray (js_prop c ''attributes'') \<longleftrightarrow> \<not> valid_comparison c"
  by (cases c) (auto simp: valid_comparison_def isArray_iff split: option.splits jsval.splits)

lemma first_text_truthy:
  "truthy (case first_text parsed ks of Some s \<Rightarrow> JStr s | None \<Rightarrow> JStr []) \<longleftrightarrow> first_text parsed ks \<noteq> None"
  by (induction ks) (auto dest: nonempty_string_Some split: option.splits)

lemma candidate_comparison_kept:
  assumes "payload_through result"
    and "resolve_parsed json_parse (js_prop (js_prop result ''response'') ''result'') initial_result
           = (parsed, st0)"
    and "truthy parsed" "typeof parsed = ''object''"
    and "valid_comparison (js_prop parsed ''comparison'')"
  shows "res_comparison (parseAgentResponse json_parse result) = js_prop parsed ''comparison''"
proof -
  let ?st2 = "after_message (js_prop result ''response'') (after_candidate parsed st0)"
  obtain st3 where st3: "parseAgentResponse json_parse result = final_fallback st3"
    "fallback_frame ?st2 st3"
    using parseAgentResponse_through [OF assms(1,2)] by blast
  have "res_comparison ?st2 = js_prop parsed ''comparison''"
    using assms(3-5) by (simp add: after_message_keeps after_candidate_def accept_comparison_cases)
  then show ?thesis
    using st3 valid_comparison_truthy [OF assms(5)]
    by (auto simp: fallback_frame_def final_fallback_keeps)
qed

lemma candidate_text_wins:
  assumes "payload_through result"
    and "resolve_parsed json_parse (js_prop (js_prop result ''response'') ''result'') initial_result
           = (parsed, st0)"
    and "truthy parsed" "typeof parsed = ''object''"
    and "first_text parsed TEXT_KEYS = Some s"
  shows "res_text (parseAgentResponse json_parse result) = JStr s"
proof -
  let ?st1 = "after_candidate parsed st0"
  let ?st2 = "after_message (js_prop result ''response'') ?st1"
  have s: "s \<noteq> []"
    using assms(5) first_text_truthy [of parsed TEXT_KEYS] by auto
  have t1: "res_text ?st1 = JStr s"
    using assms(3-5) by (simp add: after_candidate_def)
  then have st2: "?st2 = ?st1" "truthy (res_text ?st2)"
    using s by (simp_all add: after_message_keeps)
  obtain st3 where st3: "parseAgentResponse json_parse result = final_fallback st3"
    "truthy (res_text ?st2) \<or> \<not> truthy (js_prop result ''raw_response'') \<longrightarrow> st3 = ?st2"
    using parseAgentResponse_through [OF assms(1,2)] by blast
  then have "st3 = ?st1" using st2 by simp
  then show ?thesis
    using st3(1) t1 s by (simp add: final_fallback_keeps)
qed

lemma first_text_response:
  "js_prop parsed ''response'' = JStr a \<Longrightarrow> a \<noteq> [] \<Longrightarrow> first_text parsed TEXT_KEYS = Some a"
  by (simp add: TEXT_KEYS_def nonempty_string_def)


lemma trim_empty_iff: "trim s = [] \<longleftrightarrow> (\<forall>c \<in> set s. is_ws c)"
proof -
  have "trim s = [] \<longleftrightarrow> (\<forall>c \<in> set (dropWhile is_ws s). is_ws c)"
    by (simp add: trim_def)
  also have "\<dots> \<longleftrightarrow> (\<forall>c \<in> set s. is_ws c)"
  proof
    assume a: "\<forall>c \<in> set (dropWhile is_ws s). is_ws c"
    have "dropWhile is_ws s = []"
    proof (rule ccontr)
      assume "dropWhile is_ws s \<noteq> []"
      then have "\<not> is_ws (hd (dropWhile is_ws s))" "hd (dropWhile is_ws s) \<in> set (dropWhile is_ws s)"
        by (simp_all add: hd_dropWhile)
      with a show False by blast
    qed
    then show "\<forall>c \<in> set s. is_ws c" by simp
  next
    assume "\<forall>c \<in> set s. is_ws c"
    then show "\<forall>c \<in> set (dropWhile is_ws s). is_ws c"
      by (meson set_dropWhileD)
  qed
  finally show ?thesis .
qed

lemma sendMessage_begin_noop:
  "trim text_in = [] \<or> isLoading st \<Longrightarrow> sendMessage_begin env text_in st = (st, Returned)"
  by (auto simp: sendMessage_begin_def Let_def)

lemma msg_ok_errorMsg: "msg_ok (errorMsg renv)"
  by (simp add: msg_ok_def errorMsg_def)

lemma msg_ok_assistantMsg: "msg_ok (assistantMsg json_parse renv result)"
  by (simp add: msg_ok_def assistantMsg_def Let_def)

lemma msg_ok_reply: "msg_ok (reply_message json_parse renv g)"
  by (cases g) (simp_all add: reply_message_def msg_ok_errorMsg msg_ok_assistantMsg)

lemma role_reply: "msg_role (reply_message json_parse renv g) = Assistant"
  by (cases g) (simp_all add: reply_message_def errorMsg_def assistantMsg_def Let_def)

lemma reply_throws_message: "reply_throws g \<Longrightarrow> reply_message json_parse renv g = errorMsg renv"
  by (cases g) (simp_all add: reply_message_def reply_throws_def)

lemma state_ok_finish: "state_ok st \<Longrightarrow> state_ok (sendMessage_finish json_parse renv pend g st)"
  by (auto simp: state_ok_def sendMessage_finish_def append_reply_def msg_ok_reply split: if_splits)

lemma state_ok_begin: "state_ok st \<Longrightarrow> state_ok (fst (sendMessage_begin env text_in st))"
  by (auto simp: state_ok_def sendMessage_begin_def Let_def append_user_def msg_ok_def userMsg_def
        split: if_splits option.splits)

lemma state_ok_drop_errors:
  "state_ok st \<Longrightarrow> state_ok (st\<lparr>conversations := map (drop_errors a) (conversations st)\<rparr>)"
  by (auto simp: state_ok_def drop_errors_def split: if_splits)

lemma state_ok_retry: "state_ok st \<Longrightarrow> state_ok (fst (retryLastMessage env st))"
  using state_ok_begin state_ok_drop_errors
  by (auto simp: retryLastMessage_def Let_def split: option.splits jsval.splits)

lemma state_ok_create: "state_ok st \<Longrightarrow> state_ok (createNewConversation env st)"
  by (auto simp: state_ok_def createNewConversation_def)

lemma state_ok_select: "state_ok st \<Longrightarrow> state_ok (selectConversation i st)"
  by (auto simp: state_ok_def selectConversation_def)

lemma state_ok_event: "state_ok st \<Longrightarrow> state_ok (apply_event json_parse st ev)"
  by (cases ev)
     (simp_all add: state_ok_begin state_ok_finish state_ok_retry state_ok_create state_ok_select)

lemma state_ok_run: "state_ok st \<Longrightarrow> state_ok (run_events json_parse evs st)"
  unfolding run_events_def
  by (induction evs arbitrary: st) (simp_all add: state_ok_event)

lemma state_ok_initial: "state_ok initial_state"
  by (simp add: state_ok_def initial_state_def)

lemma list_all2_map_same: "(\<And>x. x \<in> set xs \<Longrightarrow> R x (f x)) \<Longrightarrow> list_all2 R xs (map f xs)"
  by (induction xs) auto

lemma finish_frame:
  "list_all2
     (\<lambda>c c'. if conv_id c = pend_convId pend
              then c' = c\<lparr>conv_messages := conv_messages c @ [reply_message json_parse renv g],
                          conv_updatedAt := env_replyUpdatedAt renv\<rparr>
              else c' = c)
     (conversations st)
     (conversations (sendMessage_finish json_parse renv pend g st))"
  by (simp add: sendMessage_finish_def append_reply_def list_all2_map_same)

lemma finish_other_fields:
  "activeConversationId (sendMessage_finish json_parse renv pend g st) = activeConversationId st"
  "inputValue (sendMessage_finish json_parse renv pend g st) = inputValue st"
  "isLoading (sendMessage_finish json_parse renv pend g st) = False"
  by (simp_all add: sendMessage_finish_def)

lemma begin_captures_active:
  "sendMessage_begin env text_in st = (st1, Awaiting pend) \<Longrightarrow>
   activeConversationId st1 = Some (pend_convId pend)"
  by (auto simp: sendMessage_begin_def Let_def split: if_splits option.splits)

lemma find_map_id:
  "(\<And>x. P (f x) = P x) \<Longrightarrow> find P (map f xs) = map_option f (find P xs)"
  by (induction xs) auto

lemma conv_id_drop_errors: "conv_id (drop_errors a c) = conv_id c"
  by (simp add: drop_errors_def)

lemma conv_id_append_user: "conv_id (append_user i u t n c) = conv_id c"
  by (simp add: append_user_def)

lemma conv_id_append_reply: "conv_id (append_reply i r n c) = conv_id c"
  by (simp add: append_reply_def)

lemma retry_issues:
  assumes "activeConversationId st = Some i" "i \<noteq> []"
    and "find (\<lambda>c. conv_id c = i) (conversations st) = Some ac"
    and "2 \<le> length (conv_messages ac)"
    and "find (\<lambda>m. msg_role m = User) (rev (conv_messages ac)) = Some lu"
    and "msg_content lu = JStr s" "trim s \<noteq> []"
    and "\<not> isLoading st"
  shows "retryLastMessage env st =
           (st\<lparr>conversations :=
                 map (append_user i (userMsg env (trim s)) (trim s) (env_userUpdatedAt env))
                   (map (drop_errors (Some i)) (conversations st)),
               inputValue := [], isLoading := True\<rparr>,
            Awaiting \<lparr>pend_convId = i, pend_sessionId = conv_sessionId ac, pend_trimmed = trim s\<rparr>)"
proof -
  let ?st' = "st\<lparr>conversations := map (drop_errors (Some i)) (conversations st)\<rparr>"
  have ac: "activeConversation st = Some ac"
    by (simp add: activeConversation_def assms(1,3))
  have r: "retryLastMessage env st = sendMessage_begin env s ?st'"
    using assms(4) by (simp add: retryLastMessage_def ac assms(1,5,6) Let_def)
  have "find (\<lambda>c. conv_id c = i) (map (drop_errors (Some i)) (conversations st))
          = Some (drop_errors (Some i) ac)"
    by (simp add: find_map_id conv_id_drop_errors assms(3))
  then have ac': "activeConversation ?st' = Some (drop_errors (Some i) ac)"
    by (simp add: activeConversation_def assms(1))
  have sid: "conv_sessionId (drop_errors (Some i) ac) = conv_sessionId ac"
    by (simp add: drop_errors_def)
  show ?thesis
    unfolding r using assms(2,7,8)
    by (simp add: sendMessage_begin_def Let_def ac' sid assms(1))
qed

lemma user_count_filter_not_error:
  "(\<forall>m \<in> set ms. msg_role m = User \<longrightarrow> not_error m) \<Longrightarrow>
   user_count (filter not_error ms) = user_count ms"
proof -
  assume a: "\<forall>m \<in> set ms. msg_role m = User \<longrightarrow> not_error m"
  have "filter (\<lambda>m. msg_role m = User) (filter not_error ms) = filter (\<lambda>m. msg_role m = User) ms"
    using a by (induction ms) auto
  then show ?thesis by (simp add: user_count_def)
qed

lemma retry_turn_messages:
  assumes "activeConversationId st = Some i" "i \<noteq> []"
    and "find (\<lambda>c. conv_id c = i) (conversations st) = Some ac"
    and "2 \<le> length (conv_messages ac)"
    and "find (\<lambda>m. msg_role m = User) (rev (conv_messages ac)) = Some lu"
    and "msg_content lu = JStr s" "trim s \<noteq> []"
    and "\<not> isLoading st"
  shows "\<exists>ac'. find (\<lambda>c. conv_id c = i)
                 (conversations (complete_turn json_parse renv g (retryLastMessage env st))) = Some ac'
           \<and> conv_messages ac' =
               filter not_error (conv_messages ac) @
                 [userMsg env (trim s), reply_message json_parse renv g]"
proof -
  let ?f = "\<lambda>c. append_reply i (reply_message json_parse renv g) (env_replyUpdatedAt renv)
                 (append_user i (userMsg env (trim s)) (trim s) (env_userUpdatedAt env)
                   (drop_errors (Some i) c))"
  have c: "conversations (complete_turn json_parse renv g (retryLastMessage env st))
             = map ?f (conversations st)"
    by (simp add: retry_issues [OF assms] complete_turn_def sendMessage_finish_def)
  have "find (\<lambda>c. conv_id c = i) (map ?f (conversations st)) = Some (?f ac)"
    by (simp add: find_map_id conv_id_drop_errors conv_id_append_user conv_id_append_reply assms(3))
  moreover have "conv_id ac = i"
    using assms(3) by (auto simp: find_Some_iff)
  then have "conv_messages (?f ac) =
      filter not_error (conv_messages ac) @ [userMsg env (trim s), reply_message json_parse renv g]"
    by (simp add: append_reply_def append_user_def drop_errors_def)
  ultimately show ?thesis using c by simp
qed




lemma find_Some_in_set: "find P xs = Some x \<Longrightarrow> x \<in> set xs"
  by (induction xs) (auto split: if_splits)

lemma state_ok_user_not_error:
  assumes "state_ok st" and "find P (conversations st) = Some ac"
    and "m \<in> set (conv_messages ac)" and "msg_role m = User"
  shows "not_error m"
proof -
  have "ac \<in> set (conversations st)" using assms(2) by (rule find_Some_in_set)
  then have "msg_ok m" using assms(1,3) by (auto simp: state_ok_def)
  then show ?thesis using assms(4) by (simp add: msg_ok_def not_error_def)
qed

section \<open>The claims\<close>

subsection \<open>The normaliser\<close>

text \<open>
  Claim C2, as the code has it. Every entry of the products that \<^verbatim>\<open>parseAgentResponse\<close>
  returns, for any argument and any behaviour of \<^verbatim>\<open>JSON.parse\<close>, is an object whose
  \<^verbatim>\<open>name\<close> field is a string; the string may be empty, since the filter tests only
  \<^verbatim>\<open>typeof p.name === 'string'\<close>. Entries are dropped one by one: when the candidate's
  \<^verbatim>\<open>products\<close> is a list of which some entry passes, the result is exactly the entries
  that pass, in order.
\<close>

theorem products_are_named_objects:
  "(\<forall>e \<in> set (res_products (parseAgentResponse json_parse result)). is_named_object e) \<and>
   (payload_through result \<and>
    resolve_parsed json_parse (js_prop (js_prop result ''response'') ''result'') initial_result
      = (parsed, st0) \<and>
    truthy parsed \<and> typeof parsed = ''object'' \<and>
    js_prop parsed ''products'' = JArr xs \<and> filter is_named_object xs \<noteq> []
    \<longrightarrow> res_products (parseAgentResponse json_parse result) = filter is_named_object xs)"
  using all_products_named candidate_products_survive by blast

text \<open>
  The theorem at a products list with one well-formed entry and one entry without a
  name: only the well-formed entry survives.
\<close>

theorem products_are_named_objects_witness:
  "payload_through
     (JObj [(''success'', JBool True),
            (''response'', JObj [(''result'',
               JObj [(''products'', JArr [JObj [(''name'', JStr ''HubSpot CRM'')],
                                          JObj [(''price'', JStr ''Free'')]])])])]) \<and>
   filter is_named_object [JObj [(''name'', JStr ''HubSpot CRM'')], JObj [(''price'', JStr ''Free'')]]
     = [JObj [(''name'', JStr ''HubSpot CRM'')]] \<and>
   res_products (parseAgentResponse json_parse_sample
     (JObj [(''success'', JBool True),
            (''response'', JObj [(''result'',
               JObj [(''products'', JArr [JObj [(''name'', JStr ''HubSpot CRM'')],
                                          JObj [(''price'', JStr ''Free'')]])])])]))
     = [JObj [(''name'', JStr ''HubSpot CRM'')]] \<and>
   is_named_object (JObj [(''name'', JStr ''HubSpot CRM'')])"
proof -
  let ?xs = "[JObj [(''name'', JStr ''HubSpot CRM'')], JObj [(''price'', JStr ''Free'')]]"
  let ?cand = "JObj [(''products'', JArr ?xs)]"
  let ?r = "JObj [(''success'', JBool True), (''response'', JObj [(''result'', ?cand)])]"
  have h1: "payload_through ?r" by (simp add: payload_through_def)
  have h2: "resolve_parsed json_parse_sample (js_prop (js_prop ?r ''response'') ''result'')
              initial_result = (?cand, initial_result)"
    by (simp add: resolve_parsed_def)
  have h3: "truthy ?cand" "typeof ?cand = ''object''" "js_prop ?cand ''products'' = JArr ?xs"
    by simp_all
  have h4: "filter is_named_object ?xs = [JObj [(''name'', JStr ''HubSpot CRM'')]]"
    by (simp add: is_named_object_def)
  have ne: "filter is_named_object ?xs \<noteq> []" unfolding h4 by simp
  have pre: "payload_through ?r \<and>
    resolve_parsed json_parse_sample (js_prop (js_prop ?r ''response'') ''result'') initial_result
      = (?cand, initial_result) \<and>
    truthy ?cand \<and> typeof ?cand = ''object'' \<and>
    js_prop ?cand ''products'' = JArr ?xs \<and> filter is_named_object ?xs \<noteq> []"
    using h1 h2 h3 ne by (intro conjI)
  have "res_products (parseAgentResponse json_parse_sample ?r) = filter is_named_object ?xs"
    using products_are_named_objects [of json_parse_sample ?r ?cand initial_result ?xs] pre
    by (rule conjunct2 [THEN mp])
  moreover have "is_named_object (JObj [(''name'', JStr ''HubSpot CRM'')])"
    by (simp add: is_named_object_def)
  ultimately show ?thesis using h1 h4 by simp
qed

text \<open>
  Claim C2 as stated asks for a non-empty name. An entry whose name is the empty string
  is kept.
\<close>

theorem empty_name_kept_counterexample:
  "res_products (parseAgentResponse json_parse_sample
     (JObj [(''success'', JBool True),
            (''response'', JObj [(''result'',
               JObj [(''products'', JArr [JObj [(''name'', JStr [])]])])])]))
     = [JObj [(''name'', JStr [])]] \<and>
   js_prop (JObj [(''name'', JStr [])]) ''name'' = JStr []"
  by code_simp

text \<open>
  Claim C4. When the guard lets the payload through and the candidate is an object, the
  text returned is the first non-empty string among the keys \<^verbatim>\<open>response\<close>, \<^verbatim>\<open>text\<close>,
  \<^verbatim>\<open>message\<close>, \<^verbatim>\<open>answer\<close>, \<^verbatim>\<open>content\<close>, in that order, whenever there is one; in
  particular a candidate with non-empty strings under both \<^verbatim>\<open>response\<close> and \<^verbatim>\<open>message\<close>
  yields the value of \<^verbatim>\<open>response\<close>.
\<close>

theorem text_key_precedence:
  assumes "payload_through result"
    and "resolve_parsed json_parse (js_prop (js_prop result ''response'') ''result'') initial_result
           = (parsed, st0)"
    and "truthy parsed" and "typeof parsed = ''object''"
  shows "(\<forall>s. first_text parsed TEXT_KEYS = Some s \<longrightarrow>
            res_text (parseAgentResponse json_parse result) = JStr s) \<and>
         (\<forall>a b. js_prop parsed ''response'' = JStr a \<and> a \<noteq> [] \<and>
                js_prop parsed ''message'' = JStr b \<and> b \<noteq> [] \<longrightarrow>
            res_text (parseAgentResponse json_parse result) = JStr a)"
  using candidate_text_wins [OF assms] first_text_response by blast

text \<open>The theorem at a candidate that lists \<^verbatim>\<open>message\<close> before \<^verbatim>\<open>response\<close>.\<close>

theorem text_key_precedence_witness:
  "payload_through
     (JObj [(''success'', JBool True),
            (''response'', JObj [(''result'',
               JObj [(''message'', JStr ''from message''),
                     (''response'', JStr ''from response'')])])]) \<and>
   first_text (JObj [(''message'', JStr ''from message''), (''response'', JStr ''from response'')])
     TEXT_KEYS = Some ''from response'' \<and>
   res_text (parseAgentResponse json_parse_sample
     (JObj [(''success'', JBool True),
            (''response'', JObj [(''result'',
               JObj [(''message'', JStr ''from message''),
                     (''response'', JStr ''from response'')])])]))
     = JStr ''from response''"
proof -
  let ?cand = "JObj [(''message'', JStr ''from message''), (''response'', JStr ''from response'')]"
  let ?r = "JObj [(''success'', JBool True), (''response'', JObj [(''result'', ?cand)])]"
  have h1: "payload_through ?r" by (simp add: payload_through_def)
  have h2: "resolve_parsed json_parse_sample (js_prop (js_prop ?r ''response'') ''result'')
              initial_result = (?cand, initial_result)"
    by (simp add: resolve_parsed_def)
  have h3: "truthy ?cand" and h4: "typeof ?cand = ''object''" by simp_all
  have h5: "first_text ?cand TEXT_KEYS = Some ''from response''"
    by (simp add: TEXT_KEYS_def nonempty_string_def)
  have "res_text (parseAgentResponse json_parse_sample ?r) = JStr ''from response''"
    using text_key_precedence [OF h1 h2 h3 h4] h5 by blast
  then show ?thesis using h1 h5 by (intro conjI)
qed




text \<open>
  Claim C5, as the code has it. When the candidate's \<^verbatim>\<open>comparison\<close> is a list, or has no
  list under \<^verbatim>\<open>attributes\<close>, the extraction from the candidate yields null, and the
  comparison returned is null whenever a text was found in the candidate or in
  \<^verbatim>\<open>response.message\<close>, or \<^verbatim>\<open>raw_response\<close> is falsy. Otherwise the fallback to
  \<^verbatim>\<open>raw_response\<close> may supply a comparison of its own; whatever is returned is null or
  a single object with a list under \<^verbatim>\<open>attributes\<close>.
\<close>

theorem comparison_rejected:
  assumes "payload_through result"
    and "resolve_parsed json_parse (js_prop (js_prop result ''response'') ''result'') initial_result
           = (parsed, st0)"
    and "truthy parsed" and "typeof parsed = ''object''"
    and "isArray (js_prop parsed ''comparison'') \<or>
         \<not> isArray (js_prop (js_prop parsed ''comparison'') ''attributes'')"
  shows "accept_comparison (js_prop parsed ''comparison'') = JNull \<and>
         (first_text parsed TEXT_KEYS \<noteq> None \<or>
          truthy (js_prop (js_prop result ''response'') ''message'') \<or>
          \<not> truthy (js_prop result ''raw_response'')
          \<longrightarrow> res_comparison (parseAgentResponse json_parse result) = JNull) \<and>
         (res_comparison (parseAgentResponse json_parse result) = JNull \<or>
          valid_comparison (res_comparison (parseAgentResponse json_parse result)))"
proof -
  let ?st1 = "after_candidate parsed st0"
  let ?st2 = "after_message (js_prop result ''response'') ?st1"
  have inv: "\<not> valid_comparison (js_prop parsed ''comparison'')"
    using assms(5) invalid_comparison_iff by blast
  then have acc: "accept_comparison (js_prop parsed ''comparison'') = JNull"
    by (simp add: accept_comparison_cases)
  have c2: "res_comparison ?st2 = JNull"
    using assms(3,4) acc by (simp add: after_message_keeps after_candidate_def)
  obtain st3 where st3: "parseAgentResponse json_parse result = final_fallback st3"
    "truthy (res_text ?st2) \<or> \<not> truthy (js_prop result ''raw_response'') \<longrightarrow> st3 = ?st2"
    using parseAgentResponse_through [OF assms(1,2)] by blast
  have t2: "truthy (res_text ?st2)"
    if "first_text parsed TEXT_KEYS \<noteq> None \<or> truthy (js_prop (js_prop result ''response'') ''message'')"
    using that assms(3,4) first_text_truthy [of parsed TEXT_KEYS]
    by (auto simp: after_message_def after_candidate_def js_or_def)
  have "first_text parsed TEXT_KEYS \<noteq> None \<or>
          truthy (js_prop (js_prop result ''response'') ''message'') \<or>
          \<not> truthy (js_prop result ''raw_response'')
          \<longrightarrow> res_comparison (parseAgentResponse json_parse result) = JNull"
    using st3 t2 c2 by (auto simp: final_fallback_keeps)
  then show ?thesis
    using acc comparison_null_or_valid [of json_parse result] by blast
qed

text \<open>The theorem at a candidate with a text and a list for its comparison.\<close>

theorem comparison_rejected_witness:
  "isArray (js_prop (JObj [(''response'', JStr ''Hi''), (''comparison'', JArr [JStr ''Price''])])
     ''comparison'') \<and>
   res_comparison (parseAgentResponse json_parse_sample
     (JObj [(''success'', JBool True),
            (''response'', JObj [(''result'',
               JObj [(''response'', JStr ''Hi''), (''comparison'', JArr [JStr ''Price''])])])]))
     = JNull"
proof -
  let ?cand = "JObj [(''response'', JStr ''Hi''), (''comparison'', JArr [JStr ''Price''])]"
  let ?r = "JObj [(''success'', JBool True), (''response'', JObj [(''result'', ?cand)])]"
  have h1: "payload_through ?r" by (simp add: payload_through_def)
  have h2: "resolve_parsed json_parse_sample (js_prop (js_prop ?r ''response'') ''result'')
              initial_result = (?cand, initial_result)"
    by (simp add: resolve_parsed_def)
  have h3: "truthy ?cand" and h4: "typeof ?cand = ''object''" by simp_all
  have h5: "isArray (js_prop ?cand ''comparison'')" by simp
  then have h5': "isArray (js_prop ?cand ''comparison'') \<or>
         \<not> isArray (js_prop (js_prop ?cand ''comparison'') ''attributes'')" ..
  have h6: "first_text ?cand TEXT_KEYS \<noteq> None \<or>
          truthy (js_prop (js_prop ?r ''response'') ''message'') \<or>
          \<not> truthy (js_prop ?r ''raw_response'')"
    by (simp add: TEXT_KEYS_def nonempty_string_def)
  have "res_comparison (parseAgentResponse json_parse_sample ?r) = JNull"
    using comparison_rejected [OF h1 h2 h3 h4 h5', THEN conjunct2, THEN conjunct1] h6
    by (rule mp)
  then show ?thesis using h5 by (intro conjI)
qed

text \<open>
  Claim C5 as stated says the result is null for every such candidate. With no text in
  the candidate, the comparison nested in \<^verbatim>\<open>raw_response\<close> is returned (lines 219-221).
\<close>

theorem raw_payload_comparison_counterexample:
  \<open>isArray (js_prop (JObj [(''comparison'', JArr [JStr ''Price''])]) ''comparison'') \<and>
   res_comparison (parseAgentResponse json_parse_sample
     (JObj [(''success'', JBool True),
            (''response'', JObj [(''result'', JObj [(''comparison'', JArr [JStr ''Price''])])]),
            (''raw_response'',
               JStr ''{"response":{"result":{"comparison":{"attributes":[]}}}}'')]))
     = JObj [(''attributes'', JArr [])]\<close>
  by code_simp

text \<open>
  Claim C10. Some argument makes \<^verbatim>\<open>parseAgentResponse\<close> return a comparison that is not
  null and has no \<^verbatim>\<open>products\<close> field: a candidate's comparison that is a single object
  with a list under \<^verbatim>\<open>attributes\<close> is returned as it is, whatever else it holds.
\<close>

theorem comparison_passed_through:
  "(\<exists>result. res_comparison (parseAgentResponse json_parse result) \<noteq> JNull \<and>
       js_prop (res_comparison (parseAgentResponse json_parse result)) ''products'' = JUndefined) \<and>
   (payload_through result \<and>
    resolve_parsed json_parse (js_prop (js_prop result ''response'') ''result'') initial_result
      = (parsed, st0) \<and>
    truthy parsed \<and> typeof parsed = ''object'' \<and>
    valid_comparison (js_prop parsed ''comparison'')
    \<longrightarrow> res_comparison (parseAgentResponse json_parse result) = js_prop parsed ''comparison'')"
proof -
  let ?c = "JObj [(''attributes'', JArr [])]"
  let ?cand = "JObj [(''comparison'', ?c)]"
  let ?r = "JObj [(''success'', JBool True), (''response'', JObj [(''result'', ?cand)])]"
  have h1: "payload_through ?r" by (simp add: payload_through_def)
  have h2: "resolve_parsed json_parse (js_prop (js_prop ?r ''response'') ''result'')
              initial_result = (?cand, initial_result)"
    by (simp add: resolve_parsed_def)
  have k: "res_comparison (parseAgentResponse json_parse ?r) = js_prop ?cand ''comparison''"
    by (rule candidate_comparison_kept [OF h1 h2]) (simp_all add: valid_comparison_def)
  have e: "js_prop ?cand ''comparison'' = ?c" by simp
  have v: "res_comparison (parseAgentResponse json_parse ?r) = ?c"
    using k e by (rule trans)
  have "?c \<noteq> JNull \<and> js_prop ?c ''products'' = JUndefined" by simp
  then have inst: "res_comparison (parseAgentResponse json_parse ?r) \<noteq> JNull \<and>
       js_prop (res_comparison (parseAgentResponse json_parse ?r)) ''products'' = JUndefined"
    unfolding v .
  have ex: "\<exists>result. res_comparison (parseAgentResponse json_parse result) \<noteq> JNull \<and>
       js_prop (res_comparison (parseAgentResponse json_parse result)) ''products'' = JUndefined"
    by (rule exI [of _ ?r]) (fact inst)
  have gen: "payload_through result \<and>
    resolve_parsed json_parse (js_prop (js_prop result ''response'') ''result'') initial_result
      = (parsed, st0) \<and>
    truthy parsed \<and> typeof parsed = ''object'' \<and>
    valid_comparison (js_prop parsed ''comparison'')
    \<longrightarrow> res_comparison (parseAgentResponse json_parse result) = js_prop parsed ''comparison''"
  proof
    assume a: "payload_through result \<and>
      resolve_parsed json_parse (js_prop (js_prop result ''response'') ''result'') initial_result
        = (parsed, st0) \<and>
      truthy parsed \<and> typeof parsed = ''object'' \<and>
      valid_comparison (js_prop parsed ''comparison'')"
    show "res_comparison (parseAgentResponse json_parse result) = js_prop parsed ''comparison''"
      by (rule candidate_comparison_kept [of result json_parse parsed st0]) (simp_all add: a)
  qed
  from ex gen show ?thesis by (rule conjI)
qed

text \<open>The theorem at a comparison that has attributes only.\<close>

theorem comparison_passed_through_witness:
  "valid_comparison (JObj [(''attributes'', JArr [JStr ''Price''])]) \<and>
   res_comparison (parseAgentResponse json_parse_sample
     (JObj [(''success'', JBool True),
            (''response'', JObj [(''result'',
               JObj [(''comparison'', JObj [(''attributes'', JArr [JStr ''Price''])])])])]))
     = JObj [(''attributes'', JArr [JStr ''Price''])] \<and>
   js_prop (JObj [(''attributes'', JArr [JStr ''Price''])]) ''products'' = JUndefined"
proof -
  let ?c = "JObj [(''attributes'', JArr [JStr ''Price''])]"
  let ?cand = "JObj [(''comparison'', ?c)]"
  let ?r = "JObj [(''success'', JBool True), (''response'', JObj [(''result'', ?cand)])]"
  have v: "valid_comparison ?c" by (simp add: valid_comparison_def)
  have pre: "payload_through ?r \<and>
    resolve_parsed json_parse_sample (js_prop (js_prop ?r ''response'') ''result'') initial_result
      = (?cand, initial_result) \<and>
    truthy ?cand \<and> typeof ?cand = ''object'' \<and>
    valid_comparison (js_prop ?cand ''comparison'')"
    using v by (simp add: payload_through_def resolve_parsed_def)
  have "res_comparison (parseAgentResponse json_parse_sample ?r) = js_prop ?cand ''comparison''"
    using comparison_passed_through [of json_parse_sample ?r ?cand initial_result] pre
    by (rule conjunct2 [THEN mp])
  then have "res_comparison (parseAgentResponse json_parse_sample ?r) = ?c" by simp
  moreover have "js_prop ?c ''products'' = JUndefined" by simp
  ultimately show ?thesis using v by (intro conjI)
qed

subsection \<open>The message flow\<close>

text \<open>
  Claim C9. A submission whose text trims to nothing, which is the case exactly when every
  character of it is white space, or one made while a turn is in flight, returns at line
  676 and leaves the whole state as it was: no conversation, message, title, timestamp,
  input or loading flag changes, and no call is issued.
\<close>

theorem blank_or_busy_submission_is_noop:
  "(trim text_in = [] \<longleftrightarrow> (\<forall>c \<in> set text_in. is_ws c)) \<and>
   (trim text_in = [] \<or> isLoading st \<longrightarrow> sendMessage_begin env text_in st = (st, Returned))"
  using trim_empty_iff [of text_in] sendMessage_begin_noop [of text_in st env] by blast

text \<open>
  The theorem at a submission of blanks and a tab in the initial state, and at a second
  submission while the first is in flight.
\<close>

theorem blank_or_busy_submission_is_noop_witness:
  "trim [CHR '' '', CHR 0x09, CHR '' ''] = [] \<and>
   sendMessage_begin example_send_env [CHR '' '', CHR 0x09, CHR '' ''] initial_state
     = (initial_state, Returned) \<and>
   isLoading (fst (sendMessage_begin example_send_env ''hi'' initial_state)) \<and>
   sendMessage_begin example_send_env2 ''again''
       (fst (sendMessage_begin example_send_env ''hi'' initial_state))
     = (fst (sendMessage_begin example_send_env ''hi'' initial_state), Returned)"
proof -
  let ?ws = "[CHR '' '', CHR 0x09, CHR '' '']"
  let ?busy = "fst (sendMessage_begin example_send_env ''hi'' initial_state)"
  have h1: "trim ?ws = []" by (simp add: trim_def is_ws_def)
  have h2: "isLoading ?busy" by code_simp
  have a: "sendMessage_begin example_send_env ?ws initial_state = (initial_state, Returned)"
    using blank_or_busy_submission_is_noop [of ?ws initial_state example_send_env, THEN conjunct2]
      disjI1 [OF h1]
    by (rule mp)
  have b: "sendMessage_begin example_send_env2 ''again'' ?busy = (?busy, Returned)"
    using blank_or_busy_submission_is_noop [of "''again''" ?busy example_send_env2, THEN conjunct2]
      disjI2 [OF h2]
    by (rule mp)
  from h1 a h2 b show ?thesis by (intro conjI)
qed

text \<open>
  Claim C6. When the awaited call rejects, or the \<^verbatim>\<open>try\<close> block throws otherwise, the
  reply handling appends exactly one message to the conversation with the captured id,
  so its message count grows by one, and leaves every other conversation as it is; the
  message is an assistant message with \<^verbatim>\<open>error\<close> true and the fixed sentence.
\<close>

theorem failed_call_appends_one_error_message:
  "reply_throws g \<longrightarrow>
     list_all2
       (\<lambda>c c'. if conv_id c = pend_convId pend
                then conv_messages c' = conv_messages c @ [errorMsg renv] \<and>
                     length (conv_messages c') = length (conv_messages c) + 1
                else c' = c)
       (conversations st)
       (conversations (sendMessage_finish json_parse renv pend g st)) \<and>
     msg_role (errorMsg renv) = Assistant \<and>
     msg_error (errorMsg renv) = Some True \<and>
     msg_content (errorMsg renv) = JStr ''Something went wrong. Please try again.''"
proof
  assume t: "reply_throws g"
  have "list_all2
       (\<lambda>c c'. if conv_id c = pend_convId pend
                then conv_messages c' = conv_messages c @ [errorMsg renv] \<and>
                     length (conv_messages c') = length (conv_messages c) + 1
                else c' = c)
       (conversations st)
       (conversations (sendMessage_finish json_parse renv pend g st))"
    by (rule list_all2_mono [OF finish_frame]) (simp add: reply_throws_message [OF t] split: if_splits)
  then show "list_all2
       (\<lambda>c c'. if conv_id c = pend_convId pend
                then conv_messages c' = conv_messages c @ [errorMsg renv] \<and>
                     length (conv_messages c') = length (conv_messages c) + 1
                else c' = c)
       (conversations st)
       (conversations (sendMessage_finish json_parse renv pend g st)) \<and>
     msg_role (errorMsg renv) = Assistant \<and>
     msg_error (errorMsg renv) = Some True \<and>
     msg_content (errorMsg renv) = JStr ''Something went wrong. Please try again.''"
    by (simp add: errorMsg_def)
qed

text \<open>
  The theorem at a first submission whose call rejects: one message after the
  submission, two after the failure.
\<close>

theorem failed_call_appends_one_error_message_witness:
  "reply_throws Rejected \<and>
   snd (sendMessage_begin example_send_env ''hi'' initial_state)
     = Awaiting \<lparr>pend_convId = ''c1'', pend_sessionId = ''s1'', pend_trimmed = ''hi''\<rparr> \<and>
   list_all2
     (\<lambda>c c'. if conv_id c = pend_convId \<lparr>pend_convId = ''c1'', pend_sessionId = ''s1'',
                                          pend_trimmed = ''hi''\<rparr>
              then conv_messages c' = conv_messages c @ [errorMsg example_reply_env] \<and>
                   length (conv_messages c') = length (conv_messages c) + 1
              else c' = c)
     (conversations (fst (sendMessage_begin example_send_env ''hi'' initial_state)))
     (conversations (sendMessage_finish json_parse_sample example_reply_env
        \<lparr>pend_convId = ''c1'', pend_sessionId = ''s1'', pend_trimmed = ''hi''\<rparr> Rejected
        (fst (sendMessage_begin example_send_env ''hi'' initial_state)))) \<and>
   map (length \<circ> conv_messages)
     (conversations (fst (sendMessage_begin example_send_env ''hi'' initial_state))) = [1] \<and>
   map (length \<circ> conv_messages)
     (conversations (sendMessage_finish json_parse_sample example_reply_env
        \<lparr>pend_convId = ''c1'', pend_sessionId = ''s1'', pend_trimmed = ''hi''\<rparr> Rejected
        (fst (sendMessage_begin example_send_env ''hi'' initial_state)))) = [2]"
proof -
  let ?pend = "\<lparr>pend_convId = ''c1'', pend_sessionId = ''s1'', pend_trimmed = ''hi''\<rparr>"
  let ?s1 = "fst (sendMessage_begin example_send_env ''hi'' initial_state)"
  have h: "reply_throws Rejected" by (simp add: reply_throws_def)
  have p: "snd (sendMessage_begin example_send_env ''hi'' initial_state) = Awaiting ?pend"
    by code_simp
  note T = failed_call_appends_one_error_message
    [of Rejected ?pend example_reply_env ?s1 json_parse_sample, THEN mp, OF h, THEN conjunct1]
  have a: "map (length \<circ> conv_messages) (conversations ?s1) = [1]" by code_simp
  have b: "map (length \<circ> conv_messages)
     (conversations (sendMessage_finish json_parse_sample example_reply_env ?pend Rejected ?s1)) = [2]"
    by code_simp
  from h p T a b show ?thesis by (intro conjI)
qed

text \<open>
  Claim C8. The id a submission captures is the active conversation's at that moment
  (the new conversation's when it created one). Whatever the state is when the reply
  arrives, and whichever conversation is active then, the reply is appended to the
  conversations with the captured id, every other conversation is left as it is, and
  the selection is not changed.
\<close>

theorem reply_goes_to_captured_conversation:
  assumes "sendMessage_begin env text_in st = (st1, Awaiting pend)"
  shows "activeConversationId st1 = Some (pend_convId pend) \<and>
         list_all2
           (\<lambda>c c'. if conv_id c = pend_convId pend
                    then c' = c\<lparr>conv_messages :=
                                  conv_messages c @ [reply_message json_parse renv g],
                                conv_updatedAt := env_replyUpdatedAt renv\<rparr>
                    else c' = c)
           (conversations later)
           (conversations (sendMessage_finish json_parse renv pend g later)) \<and>
         activeConversationId (sendMessage_finish json_parse renv pend g later)
           = activeConversationId later \<and>
         msg_role (reply_message json_parse renv g) = Assistant"
  by (intro conjI begin_captures_active [OF assms] finish_frame finish_other_fields(1) role_reply)

text \<open>
  The theorem at a submission in a first conversation whose reply arrives after a second
  conversation was created and became the active one.
\<close>

theorem reply_goes_to_captured_conversation_witness:
  "sendMessage_begin example_send_env ''hi'' initial_state
     = (fst (sendMessage_begin example_send_env ''hi'' initial_state), Awaiting example_pending) \<and>
   activeConversationId (fst (sendMessage_begin example_send_env ''hi'' initial_state))
     = Some (pend_convId example_pending) \<and>
   activeConversationId
     (createNewConversation example_send_env2
        (fst (sendMessage_begin example_send_env ''hi'' initial_state))) = Some ''c2'' \<and>
   list_all2
     (\<lambda>c c'. if conv_id c = pend_convId example_pending
              then c' = c\<lparr>conv_messages :=
                            conv_messages c @
                              [reply_message json_parse_sample example_reply_env
                                 (Resolved example_agent_reply)],
                          conv_updatedAt := env_replyUpdatedAt example_reply_env\<rparr>
              else c' = c)
     (conversations
        (createNewConversation example_send_env2
           (fst (sendMessage_begin example_send_env ''hi'' initial_state))))
     (conversations
        (sendMessage_finish json_parse_sample example_reply_env example_pending
           (Resolved example_agent_reply)
           (createNewConversation example_send_env2
              (fst (sendMessage_begin example_send_env ''hi'' initial_state))))) \<and>
   map conv_id
     (conversations
        (sendMessage_finish json_parse_sample example_reply_env example_pending
           (Resolved example_agent_reply)
           (createNewConversation example_send_env2
              (fst (sendMessage_begin example_send_env ''hi'' initial_state)))))
     = [''c2'', ''c1''] \<and>
   map (length \<circ> conv_messages)
     (conversations
        (sendMessage_finish json_parse_sample example_reply_env example_pending
           (Resolved example_agent_reply)
           (createNewConversation example_send_env2
              (fst (sendMessage_begin example_send_env ''hi'' initial_state)))))
     = [0, 2]"
proof -
  let ?s1 = "fst (sendMessage_begin example_send_env ''hi'' initial_state)"
  let ?later = "createNewConversation example_send_env2 ?s1"
  have "snd (sendMessage_begin example_send_env ''hi'' initial_state) = Awaiting example_pending"
    by code_simp
  then have h: "sendMessage_begin example_send_env ''hi'' initial_state
                  = (?s1, Awaiting example_pending)"
    by (simp add: prod_eq_iff)
  note T = reply_goes_to_captured_conversation
    [OF h, where later = ?later and json_parse = json_parse_sample and renv = example_reply_env
       and g = "Resolved example_agent_reply"]
  have a: "activeConversationId ?later = Some ''c2''" by code_simp
  have b: "map conv_id
     (conversations (sendMessage_finish json_parse_sample example_reply_env example_pending
           (Resolved example_agent_reply) ?later)) = [''c2'', ''c1'']"
    by code_simp
  have c: "map (length \<circ> conv_messages)
     (conversations (sendMessage_finish json_parse_sample example_reply_env example_pending
           (Resolved example_agent_reply) ?later)) = [0, 2]"
    by code_simp
  from h T [THEN conjunct1] a T [THEN conjunct2, THEN conjunct1] b c
  show ?thesis by (intro conjI)
qed

text \<open>
  Claim C7. The initial state satisfies the message invariant, and every run of sends,
  replies (successful or failed, for any pending call), retries, conversation creations
  and selections preserves it: a user message carries no products, comparison or error
  flag, and a message flagged as error carries no products and no comparison.
\<close>

theorem messages_wellformed_invariant:
  "state_ok initial_state \<and> (state_ok st \<longrightarrow> state_ok (run_events json_parse evs st))"
  using state_ok_initial state_ok_run [of st json_parse evs] by blast

text \<open>The theorem at a failed turn followed by a retry that succeeds.\<close>

theorem messages_wellformed_invariant_witness:
  "state_ok initial_state \<and>
   state_ok (run_events json_parse_sample
     [Send example_send_env ''hi'',
      Reply example_reply_env example_pending Rejected,
      Retry example_send_env2,
      Reply example_reply_env2 example_pending (Resolved example_agent_reply)]
     initial_state) \<and>
   map (length \<circ> conv_messages)
     (conversations (run_events json_parse_sample
        [Send example_send_env ''hi'',
         Reply example_reply_env example_pending Rejected,
         Retry example_send_env2,
         Reply example_reply_env2 example_pending (Resolved example_agent_reply)]
        initial_state)) = [3]"
proof -
  let ?evs = "[Send example_send_env ''hi'',
      Reply example_reply_env example_pending Rejected,
      Retry example_send_env2,
      Reply example_reply_env2 example_pending (Resolved example_agent_reply)]"
  note T = messages_wellformed_invariant [of initial_state json_parse_sample ?evs]
  have i: "state_ok initial_state" using T by (rule conjunct1)
  have r: "state_ok (run_events json_parse_sample ?evs initial_state)"
    using T [THEN conjunct2] i by (rule mp)
  have n: "map (length \<circ> conv_messages)
     (conversations (run_events json_parse_sample ?evs initial_state)) = [3]"
    by code_simp
  from i r n show ?thesis by (intro conjI)
qed

text \<open>
  Claim C1, as the code has it. Let the active conversation have a non-empty id and at
  least two messages, the last one flagged as error, let its last user message hold a
  string that does not trim to nothing, and let no turn be in flight. Then a retry
  followed by its reply leaves that conversation with its messages that are not flagged
  as error, then a new user message repeating the text, then exactly one assistant
  message. \<^verbatim>\<open>retryLastMessage\<close> resubmits through \<^verbatim>\<open>sendMessage\<close>, which appends a user
  message, and its filter drops flagged messages whatever their role: the count of user
  messages afterwards is the count of user messages not flagged as error before, plus
  one. It is the count before plus one when no user message of the conversation is
  flagged as error, and hence in every state that satisfies the message invariant.
\<close>

theorem retry_resubmits_last_user_text:
  assumes "activeConversationId st = Some i" and "i \<noteq> []"
    and "find (\<lambda>c. conv_id c = i) (conversations st) = Some ac"
    and "2 \<le> length (conv_messages ac)"
    and "msg_error (last (conv_messages ac)) = Some True"
    and "find (\<lambda>m. msg_role m = User) (rev (conv_messages ac)) = Some lu"
    and "msg_content lu = JStr s" and "trim s \<noteq> []"
    and "\<not> isLoading st"
  shows "map_option conv_messages
           (find (\<lambda>c. conv_id c = i)
              (conversations (complete_turn json_parse renv g (retryLastMessage env st))))
           = Some (filter not_error (conv_messages ac) @
                     [userMsg env (trim s), reply_message json_parse renv g]) \<and>
         msg_role (userMsg env (trim s)) = User \<and>
         msg_role (reply_message json_parse renv g) = Assistant \<and>
         user_count (filter not_error (conv_messages ac) @
                       [userMsg env (trim s), reply_message json_parse renv g])
           = user_count (filter not_error (conv_messages ac)) + 1 \<and>
         ((\<forall>m \<in> set (conv_messages ac). msg_role m = User \<longrightarrow> not_error m) \<longrightarrow>
            user_count (filter not_error (conv_messages ac) @
                          [userMsg env (trim s), reply_message json_parse renv g])
              = user_count (conv_messages ac) + 1) \<and>
         (state_ok st \<longrightarrow>
            user_count (filter not_error (conv_messages ac) @
                          [userMsg env (trim s), reply_message json_parse renv g])
              = user_count (conv_messages ac) + 1)"
proof -
  let ?new = "filter not_error (conv_messages ac) @
                [userMsg env (trim s), reply_message json_parse renv g]"
  have m: "map_option conv_messages
           (find (\<lambda>c. conv_id c = i)
              (conversations (complete_turn json_parse renv g (retryLastMessage env st))))
           = Some ?new"
    using retry_turn_messages [OF assms(1-4) assms(6-9), of json_parse renv g env] by auto
  have u: "msg_role (userMsg env (trim s)) = User" by (simp add: userMsg_def)
  have r: "msg_role (reply_message json_parse renv g) = Assistant" by (rule role_reply)
  have c: "user_count ?new = user_count (filter not_error (conv_messages ac)) + 1"
    by (simp add: user_count_def u r)
  have d: "(\<forall>m \<in> set (conv_messages ac). msg_role m = User \<longrightarrow> not_error m) \<longrightarrow>
            user_count ?new = user_count (conv_messages ac) + 1"
    using c user_count_filter_not_error [of "conv_messages ac"] by auto
  have e: "state_ok st \<longrightarrow> user_count ?new = user_count (conv_messages ac) + 1"
  proof
    assume ok: "state_ok st"
    have "\<forall>m \<in> set (conv_messages ac). msg_role m = User \<longrightarrow> not_error m"
      using state_ok_user_not_error [OF ok assms(3)] by blast
    with d show "user_count ?new = user_count (conv_messages ac) + 1" by (rule mp)
  qed
  from m u r c d e show ?thesis by (intro conjI)
qed

text \<open>
  The theorem at the state after a failed first turn, with a retry that succeeds: one
  user message before, none of them flagged, and one more after.
\<close>

theorem retry_resubmits_last_user_text_witness:
  "activeConversationId example_failed_state = Some ''c1'' \<and>
   msg_error (last (conv_messages (hd (conversations example_failed_state)))) = Some True \<and>
   msg_content (hd (conv_messages (hd (conversations example_failed_state)))) = JStr ''hi'' \<and>
   map_option conv_messages
     (find (\<lambda>c. conv_id c = ''c1'')
        (conversations (complete_turn json_parse_sample example_reply_env2
           (Resolved example_agent_reply)
           (retryLastMessage example_send_env2 example_failed_state))))
     = Some (filter not_error (conv_messages (hd (conversations example_failed_state))) @
               [userMsg example_send_env2 (trim ''hi''),
                reply_message json_parse_sample example_reply_env2
                  (Resolved example_agent_reply)]) \<and>
   user_count (conv_messages (hd (conversations example_failed_state))) = 1 \<and>
   user_count (filter not_error (conv_messages (hd (conversations example_failed_state))) @
                 [userMsg example_send_env2 (trim ''hi''),
                  reply_message json_parse_sample example_reply_env2
                    (Resolved example_agent_reply)])
     = user_count (conv_messages (hd (conversations example_failed_state))) + 1"
proof -
  let ?ac = "hd (conversations example_failed_state)"
  let ?lu = "hd (conv_messages ?ac)"
  have h1: "activeConversationId example_failed_state = Some ''c1''" by code_simp
  have h2: "''c1'' \<noteq> []" by simp
  have h3: "find (\<lambda>c. conv_id c = ''c1'') (conversations example_failed_state) = Some ?ac"
    by code_simp
  have h4: "2 \<le> length (conv_messages ?ac)" by code_simp
  have h5: "msg_error (last (conv_messages ?ac)) = Some True" by code_simp
  have h6: "find (\<lambda>m. msg_role m = User) (rev (conv_messages ?ac)) = Some ?lu" by code_simp
  have h7: "msg_content ?lu = JStr ''hi''" by code_simp
  have h8: "trim ''hi'' \<noteq> []" by code_simp
  have h9: "\<not> isLoading example_failed_state" by code_simp
  have h10: "\<forall>m \<in> set (conv_messages ?ac). msg_role m = User \<longrightarrow> not_error m" by code_simp
  have n: "user_count (conv_messages ?ac) = 1" by code_simp
  note T = retry_resubmits_last_user_text
    [OF h1 h2 h3 h4 h5 h6 h7 h8 h9, where json_parse = json_parse_sample
       and renv = example_reply_env2 and g = "Resolved example_agent_reply"
       and env = example_send_env2]
  have k: "user_count (filter not_error (conv_messages ?ac) @
                 [userMsg example_send_env2 (trim ''hi''),
                  reply_message json_parse_sample example_reply_env2
                    (Resolved example_agent_reply)])
     = user_count (conv_messages ?ac) + 1"
    using T [THEN conjunct2, THEN conjunct2, THEN conjunct2, THEN conjunct2, THEN conjunct1] h10
    by (rule mp)
  from h1 h5 h7 T [THEN conjunct1] n k
  show ?thesis by (intro conjI)
qed

text \<open>
  Claim C1 as stated says the count of user messages is unchanged. After a failed first
  turn there is one user message; after the retry, whether it fails or succeeds, two.
\<close>

theorem retry_duplicates_user_message_counterexample:
  "map (user_count \<circ> conv_messages) (conversations example_failed_state) = [1] \<and>
   map (msg_error \<circ> last \<circ> conv_messages) (conversations example_failed_state) = [Some True] \<and>
   map (user_count \<circ> conv_messages)
     (conversations (complete_turn json_parse_sample example_reply_env2 Rejected
        (retryLastMessage example_send_env2 example_failed_state))) = [2] \<and>
   map (user_count \<circ> conv_messages)
     (conversations (complete_turn json_parse_sample example_reply_env2
        (Resolved example_agent_reply)
        (retryLastMessage example_send_env2 example_failed_state))) = [2]"
  by code_simp

end
